theory Spec2Isabelle
  imports Complex_Main
begin

unbundle bit_operations_syntax

section \<open>The WebGL rendering backend: Capabilities, IdMap and System\<close>

text \<open>
  A shallow embedding of the classes \<open>Capabilities\<close>, \<open>IdMap\<close> and \<open>System\<close> of the WebGL
  render system. Objects that the source compares by reference carry an object
  reference (a natural number drawn from an allocation counter); calls into the
  WebGL context and into other packages are recorded in a trace, and what such a call
  returns is a parameter of the model.
\<close>

subsection \<open>Errors\<close>

text \<open>
  The source signals a programmer error with \<open>assert\<close>, and JavaScript raises a
  \<open>TypeError\<close> when a member of \<open>undefined\<close> is read; \<open>System.create\<close> throws an
  \<open>IModelError\<close> with a message. All are results of the model. \<open>OutsideModel\<close> is not
  thrown by the source: it marks the inputs of the sheet tile tessellation on which the
  doubles of the source leave the rational numbers of the model (a tile of width zero,
  whose scale is infinite, or no corner at all).
\<close>

datatype error = AssertionError | TypeError | IModelError string | OutsideModel

subsection \<open>The WebGL context as the capability probe reads it\<close>

datatype GLParameter =
    MAX_TEXTURE_SIZE
  | MAX_TEXTURE_IMAGE_UNITS
  | MAX_VERTEX_TEXTURE_IMAGE_UNITS
  | MAX_VERTEX_ATTRIBS
  | MAX_VERTEX_UNIFORM_VECTORS
  | MAX_VARYING_VECTORS
  | MAX_FRAGMENT_UNIFORM_VECTORS
  | MAX_COLOR_ATTACHMENTS_WEBGL
  | MAX_DRAW_BUFFERS_WEBGL

datatype TexelType = FLOAT | HALF_FLOAT_OES

datatype FramebufferStatus = FRAMEBUFFER_COMPLETE | FRAMEBUFFER_INCOMPLETE

type_synonym ExtensionObject = nat

text \<open>
  \<open>getSupportedExtensions\<close> may return \<open>null\<close> (\<open>None\<close>); \<open>getExtension\<close> returns the
  extension object or \<open>null\<close>. \<open>checkFramebufferStatus t\<close> is the status the context
  reports for a framebuffer whose colour attachment is a 1x1 RGBA texture of texel
  type \<open>t\<close>, which is the only thing \<open>isTextureRenderable\<close> reads back.
\<close>

record WebGLRenderingContext =
  getParameter :: "GLParameter \<Rightarrow> int"
  getSupportedExtensions :: "string list option"
  getExtension :: "string \<Rightarrow> ExtensionObject option"
  checkFramebufferStatus :: "TexelType \<Rightarrow> FramebufferStatus"

subsection \<open>Capabilities\<close>

datatype RenderType = TextureUnsignedByte | TextureHalfFloat | TextureFloat

text \<open>
  \<open>DepthType\<close> is a \<open>const enum\<close>: its members are the numbers 0, 1 and 2 at run time,
  and \<open>createDepthBuffer\<close> switches over the number with a \<open>default\<close> branch. The
  model keeps the number, so that the default branch is a branch of the model.
\<close>

type_synonym DepthType = nat

definition RenderBufferUnsignedShort16 :: DepthType where
  "RenderBufferUnsignedShort16 = 0"

definition TextureUnsignedInt24Stencil8 :: DepthType where
  "TextureUnsignedInt24Stencil8 = 1"

definition TextureUnsignedInt32 :: DepthType where
  "TextureUnsignedInt32 = 2"

definition forceNoDrawBuffers :: bool where
  "forceNoDrawBuffers = False"

definition forceHalfFloat :: bool where
  "forceHalfFloat = False"

record Capabilities =
  maxRenderType :: RenderType
  maxDepthType :: DepthType
  maxTextureSize :: int
  maxColorAttachments :: int
  maxDrawBuffers :: int
  maxFragTextureUnits :: int
  maxVertTextureUnits :: int
  maxVertAttribs :: int
  maxVertUniformVectors :: int
  maxVaryingVectors :: int
  maxFragUniformVectors :: int
  extensionMap :: "string \<rightharpoonup> ExtensionObject"

text \<open>The field initialisers of \<open>new Capabilities()\<close>.\<close>

definition Capabilities_new :: Capabilities where
  "Capabilities_new =
     \<lparr> maxRenderType = TextureUnsignedByte,
       maxDepthType = RenderBufferUnsignedShort16,
       maxTextureSize = 0,
       maxColorAttachments = 0,
       maxDrawBuffers = 0,
       maxFragTextureUnits = 0,
       maxVertTextureUnits = 0,
       maxVertAttribs = 0,
       maxVertUniformVectors = 0,
       maxVaryingVectors = 0,
       maxFragUniformVectors = 0,
       extensionMap = Map.empty \<rparr>"

text \<open>
  \<open>queryExtensionObject\<close>: the stored object, \<open>undefined\<close> when the map has no entry
  (the map never holds \<open>null\<close>: \<open>init\<close> stores only non-null objects).
\<close>

definition queryExtensionObject :: "Capabilities \<Rightarrow> string \<Rightarrow> ExtensionObject option" where
  "queryExtensionObject caps ext = extensionMap caps ext"

definition supportsDrawBuffers :: "Capabilities \<Rightarrow> bool" where
  "supportsDrawBuffers caps \<longleftrightarrow> queryExtensionObject caps ''WEBGL_draw_buffers'' \<noteq> None"

definition supportsInstancing :: "Capabilities \<Rightarrow> bool" where
  "supportsInstancing caps \<longleftrightarrow> queryExtensionObject caps ''ANGLE_instanced_arrays'' \<noteq> None"

definition supports32BitElementIndex :: "Capabilities \<Rightarrow> bool" where
  "supports32BitElementIndex caps \<longleftrightarrow> queryExtensionObject caps ''OES_element_index_uint'' \<noteq> None"

definition hasRequiredFeatures :: "Capabilities \<Rightarrow> bool" where
  "hasRequiredFeatures caps \<longleftrightarrow> supports32BitElementIndex caps"

definition hasRequiredTextureUnits :: "Capabilities \<Rightarrow> bool" where
  "hasRequiredTextureUnits caps \<longleftrightarrow> maxFragTextureUnits caps > 4 \<and> maxVertTextureUnits caps > 5"

text \<open>The condition under which the loop of \<open>init\<close> asks the context for an extension.\<close>

definition isUsedExtension :: "string \<Rightarrow> bool" where
  "isUsedExtension ext \<longleftrightarrow>
     (\<not> forceNoDrawBuffers \<and> ext = ''WEBGL_draw_buffers'') \<or> ext = ''OES_element_index_uint'' \<or>
     (\<not> forceHalfFloat \<and> ext = ''OES_texture_float'') \<or>
     ext = ''OES_texture_half_float'' \<or> ext = ''WEBGL_depth_texture'' \<or>
     ext = ''EXT_color_buffer_float'' \<or> ext = ''EXT_shader_texture_lod'' \<or>
     ext = ''ANGLE_instanced_arrays''"

text \<open>One iteration of \<open>for (const ext of extensions)\<close>, on the extension map.\<close>

definition enableExtension ::
  "WebGLRenderingContext \<Rightarrow> string \<Rightarrow> (string \<rightharpoonup> ExtensionObject) \<Rightarrow> (string \<rightharpoonup> ExtensionObject)" where
  "enableExtension gl ext m =
     (if isUsedExtension ext then
        (case getExtension gl ext of
           None \<Rightarrow> m
         | Some extObj \<Rightarrow> m(ext \<mapsto> extObj))
      else m)"

fun enableExtensions ::
  "WebGLRenderingContext \<Rightarrow> string list \<Rightarrow> (string \<rightharpoonup> ExtensionObject) \<Rightarrow> (string \<rightharpoonup> ExtensionObject)" where
  "enableExtensions gl [] m = m"
| "enableExtensions gl (ext # exts) m = enableExtensions gl exts (enableExtension gl ext m)"

definition isTextureRenderable :: "WebGLRenderingContext \<Rightarrow> TexelType \<Rightarrow> bool" where
  "isTextureRenderable gl texType \<longleftrightarrow> checkFramebufferStatus gl texType = FRAMEBUFFER_COMPLETE"

text \<open>
  \<open>Capabilities.init\<close>: the updated object and the boolean it returns. (\<open>debugPrint\<close>
  only prints, and is left out.)
\<close>

definition Capabilities_init :: "WebGLRenderingContext \<Rightarrow> Capabilities \<Rightarrow> bool \<times> Capabilities" where
  "Capabilities_init gl caps0 =
     (let caps1 = caps0
            \<lparr> maxTextureSize := getParameter gl MAX_TEXTURE_SIZE,
              maxFragTextureUnits := getParameter gl MAX_TEXTURE_IMAGE_UNITS,
              maxVertTextureUnits := getParameter gl MAX_VERTEX_TEXTURE_IMAGE_UNITS,
              maxVertAttribs := getParameter gl MAX_VERTEX_ATTRIBS,
              maxVertUniformVectors := getParameter gl MAX_VERTEX_UNIFORM_VECTORS,
              maxVaryingVectors := getParameter gl MAX_VARYING_VECTORS,
              maxFragUniformVectors := getParameter gl MAX_FRAGMENT_UNIFORM_VECTORS \<rparr>;
          caps2 =
            (case getSupportedExtensions gl of
               None \<Rightarrow> caps1
             | Some extensions \<Rightarrow>
                 caps1 \<lparr> extensionMap := enableExtensions gl extensions (extensionMap caps1) \<rparr>);
          dbExt = queryExtensionObject caps2 ''WEBGL_draw_buffers'';
          caps3 = caps2
            \<lparr> maxColorAttachments :=
                (if dbExt \<noteq> None then getParameter gl MAX_COLOR_ATTACHMENTS_WEBGL else 1),
              maxDrawBuffers :=
                (if dbExt \<noteq> None then getParameter gl MAX_DRAW_BUFFERS_WEBGL else 1) \<rparr>;
          caps4 =
            (if \<not> forceHalfFloat \<and> isTextureRenderable gl FLOAT
             then caps3 \<lparr> maxRenderType := TextureFloat \<rparr>
             else
               (let hfExt = queryExtensionObject caps3 ''OES_texture_half_float''
                in caps3 \<lparr> maxRenderType :=
                     (if hfExt \<noteq> None \<and> isTextureRenderable gl HALF_FLOAT_OES
                      then TextureHalfFloat else TextureUnsignedByte) \<rparr>));
          caps5 = caps4
            \<lparr> maxDepthType :=
                (if queryExtensionObject caps4 ''WEBGL_depth_texture'' \<noteq> None
                 then TextureUnsignedInt24Stencil8 else RenderBufferUnsignedShort16) \<rparr>
      in (hasRequiredFeatures caps5 \<and> hasRequiredTextureUnits caps5, caps5))"

definition Capabilities_create :: "WebGLRenderingContext \<Rightarrow> Capabilities option" where
  "Capabilities_create gl =
     (let (ok, caps) = Capabilities_init gl Capabilities_new
      in if ok then Some caps else None)"

text \<open>
  What it means for a context to support an extension, as the probe can observe it: the
  context lists the extension and enabling it yields the extension object.
\<close>

definition contextSupports :: "WebGLRenderingContext \<Rightarrow> string \<Rightarrow> bool" where
  "contextSupports gl ext \<longleftrightarrow>
     (case getSupportedExtensions gl of
        None \<Rightarrow> False
      | Some extensions \<Rightarrow> ext \<in> set extensions \<and> getExtension gl ext \<noteq> None)"

subsection \<open>Objects, the world and its trace\<close>

text \<open>
  An object that the source compares with \<open>===\<close>, or uses as the key of a JavaScript
  \<open>Map\<close>, is represented by its reference. \<open>ImageBuffer\<close>, \<open>HTMLImageElement\<close>,
  \<open>TextureHandle\<close>, \<open>WebGLTexture\<close>, \<open>RenderClipVolume\<close>, \<open>ClipShape\<close> and
  \<open>IModelConnection\<close> are opaque to the code modelled here: they are references only.
\<close>

type_synonym ref = nat
type_synonym ImageBuffer = ref
type_synonym HTMLImageElement = ref
type_synonym TextureHandle = ref
type_synonym WebGLTexture = ref
type_synonym RenderClipVolume = ref
type_synonym ClipShape = ref
type_synonym IModelConnection = ref

text \<open>\<open>TextureBinding = WebGLTexture | undefined\<close>.\<close>

type_synonym TextureBinding = "WebGLTexture option"

text \<open>
  \<open>RenderTexture.Type\<close>: the source names only the member \<open>Normal\<close>; the other members
  are kept as numbers.
\<close>

datatype TextureType = Normal | OtherTextureType nat

datatype TextureTarget = TwoDee | CubeMap

text \<open>
  A function object. \<open>this.removeIModelMap\<close> reads the method of the prototype, one
  function object shared by every \<open>System\<close>; \<open>f.bind(o)\<close> creates a new function
  object each time it is evaluated, which carries its own reference.
\<close>

datatype FunctionObject =
    PrototypeMethod string
  | BoundFunction ref FunctionObject ref

text \<open>
  The calls that leave the modelled classes, in the order they are made: constructors of
  resources, calls into \<open>TextureHandle\<close>, \<open>Gradient.Symb\<close> and the clip volume classes,
  \<open>dispose\<close> of an owned object, and the calls on the WebGL context and on the
  instancing extension.
\<close>

datatype Event =
    New_Material ref
  | New_Texture ref TextureHandle
  | Call_getImage ref nat nat
  | Call_createForImageBuffer ImageBuffer TextureType
  | Call_createForImage HTMLImageElement bool TextureType
  | Call_createForCubeImages "HTMLImageElement list"
  | Call_ClipMaskVolume_create ref
  | Call_ClipPlanesVolume_create ref
  | Call_dispose ref
  | GL_activeTexture int
  | GL_bindTexture TextureTarget TextureBinding
  | GL_enableVertexAttribArray nat
  | GL_disableVertexAttribArray nat
  | ANGLE_vertexAttribDivisor nat int

text \<open>
  The world outside one object: the allocator of object references, the trace, and the
  listeners of the static event \<open>IModelConnection.onClose\<close>.
\<close>

record World =
  next_ref :: ref
  trace :: "Event list"
  onClose :: "FunctionObject list"

definition emit :: "Event \<Rightarrow> World \<Rightarrow> World" where
  "emit e w = w \<lparr> trace := trace w @ [e] \<rparr>"

definition alloc :: "World \<Rightarrow> ref \<times> World" where
  "alloc w = (next_ref w, w \<lparr> next_ref := Suc (next_ref w) \<rparr>)"

text \<open>
  What a function returns or throws. Where a function can throw after it has changed
  the state, the state at the throw is returned beside the outcome.
\<close>

datatype 'a outcome = Returns 'a | Throws error

subsection \<open>JavaScript containers\<close>

text \<open>
  A JavaScript \<open>Map\<close> keeps its entries in insertion order; \<open>set\<close> on a present key
  replaces the value in place.
\<close>

fun Map_set :: "'k \<Rightarrow> 'a \<Rightarrow> ('k \<times> 'a) list \<Rightarrow> ('k \<times> 'a) list" where
  "Map_set k v [] = [(k, v)]"
| "Map_set k v ((k', v') # kvs) =
     (if k' = k then (k, v) # kvs else (k', v') # Map_set k v kvs)"

definition Map_get :: "('k \<times> 'a) list \<Rightarrow> 'k \<Rightarrow> 'a option" where
  "Map_get kvs k = map_of kvs k"

definition Map_values :: "('k \<times> 'a) list \<Rightarrow> 'a list" where
  "Map_values kvs = map snd kvs"

text \<open>
  Modelled from the spec: the class \<open>Dictionary\<close> of bentleyjs-core and the comparator
  \<open>Gradient.Symb.compareSymb\<close> of imodeljs-common are not among the source files. The
  spec describes the gradient cache as keyed "by structural equality of the gradient
  symbol (not identity)", "using a custom equality/ordering comparator". The comparator
  is the linear order of the type of the symbols' field values: it answers "equal"
  exactly for equal field values, and the dictionary keeps its entries sorted by key.
\<close>

fun Dictionary_set :: "'k::linorder \<Rightarrow> 'a \<Rightarrow> ('k \<times> 'a) list \<Rightarrow> ('k \<times> 'a) list" where
  "Dictionary_set k v [] = [(k, v)]"
| "Dictionary_set k v ((k', v') # kvs) =
     (if k = k' then (k, v) # kvs
      else if k < k' then (k, v) # (k', v') # kvs
      else (k', v') # Dictionary_set k v kvs)"

definition Dictionary_get :: "('k \<times> 'a) list \<Rightarrow> 'k \<Rightarrow> 'a option" where
  "Dictionary_get kvs k = map_of kvs k"

definition Dictionary_values :: "('k \<times> 'a) list \<Rightarrow> 'a list" where
  "Dictionary_values kvs = map snd kvs"

text \<open>
  A JavaScript array: reading past the end gives \<open>undefined\<close> (\<open>None\<close>), writing past
  the end extends the array and leaves holes, which read as \<open>undefined\<close>.
\<close>

definition Array_get :: "'a option list \<Rightarrow> nat \<Rightarrow> 'a option" where
  "Array_get xs i = (if i < length xs then xs ! i else None)"

definition Array_set :: "'a option list \<Rightarrow> nat \<Rightarrow> 'a option \<Rightarrow> 'a option list" where
  "Array_set xs i v =
     (if i < length xs then xs[i := v]
      else xs @ replicate (i - length xs) None @ [v])"


subsection \<open>Materials, textures, gradient symbols, clip vectors\<close>


record Material =
  mat_ref :: ref
  mat_key :: "string option"

record TextureParams =
  tp_key :: "string option"
  tp_type :: TextureType
  tp_isOwned :: bool

text \<open>
  The constructor of \<open>RenderTexture\<close> (imodeljs-common) copies key, type and ownership
  from the parameters; a \<open>Texture\<close> adds the handle it was constructed with.
\<close>

record Texture =
  tex_ref :: ref
  tex_key :: "string option"
  tex_type :: TextureType
  tex_isOwned :: bool
  tex_handle :: TextureHandle

text \<open>
  A gradient symbol is an object (\<open>symb_ref\<close>) with structured field values
  (\<open>symb_fields\<close>): two symbols can be equal in their fields and distinct as objects.
\<close>

record 'v GradientSymb =
  symb_ref :: ref
  symb_fields :: 'v

record ClipVector =
  cv_ref :: ref
  clips :: "ClipShape list"


definition new_Texture :: "TextureParams \<Rightarrow> TextureHandle \<Rightarrow> World \<Rightarrow> Texture \<times> World" where
  "new_Texture params handle w =
     (let (r, w') = alloc w
      in (\<lparr> tex_ref = r, tex_key = tp_key params, tex_type = tp_type params,
             tex_isOwned = tp_isOwned params, tex_handle = handle \<rparr>,
          emit (New_Texture r handle) w'))"

subsection \<open>The environment of the IdMap\<close>

text \<open>
  What the calls into other modules return is a parameter. Each function sees the world
  at the call, so that its answer may depend on everything that happened before. A
  creation function of \<open>TextureHandle\<close> or of a clip volume class returns the new
  object or \<open>undefined\<close>.

  Modelled from the spec: \<open>assert\<close> of bentleyjs-core is not among the source files. The
  spec has a violated assertion "fatal only in debug builds, ignored (best-effort
  continue) in release builds"; \<open>assertionsEnabled\<close> tells the two builds apart.
\<close>

record 'v Env =
  assertionsEnabled :: bool
  createForImageBuffer :: "World \<Rightarrow> ImageBuffer \<Rightarrow> TextureType \<Rightarrow> TextureHandle option"
  createForImage :: "World \<Rightarrow> HTMLImageElement \<Rightarrow> bool \<Rightarrow> TextureType \<Rightarrow> TextureHandle option"
  createForCubeImages :: "World \<Rightarrow> HTMLImageElement list \<Rightarrow> TextureHandle option"
  getImage :: "World \<Rightarrow> 'v GradientSymb \<Rightarrow> nat \<Rightarrow> nat \<Rightarrow> ImageBuffer"
  createClipMaskVolume :: "World \<Rightarrow> ClipVector \<Rightarrow> RenderClipVolume option"
  createClipPlanesVolume :: "World \<Rightarrow> ClipVector \<Rightarrow> RenderClipVolume option"

definition assert :: "'v Env \<Rightarrow> bool \<Rightarrow> error option" where
  "assert env condition = (if assertionsEnabled env \<and> \<not> condition then Some AssertionError else None)"

definition TextureHandle_createForImageBuffer ::
  "'v Env \<Rightarrow> ImageBuffer \<Rightarrow> TextureType \<Rightarrow> World \<Rightarrow> TextureHandle option \<times> World" where
  "TextureHandle_createForImageBuffer env img ty w =
     (createForImageBuffer env w img ty, emit (Call_createForImageBuffer img ty) w)"

definition TextureHandle_createForImage ::
  "'v Env \<Rightarrow> HTMLImageElement \<Rightarrow> bool \<Rightarrow> TextureType \<Rightarrow> World \<Rightarrow> TextureHandle option \<times> World" where
  "TextureHandle_createForImage env img hasAlpha ty w =
     (createForImage env w img hasAlpha ty, emit (Call_createForImage img hasAlpha ty) w)"

definition TextureHandle_createForCubeImages ::
  "'v Env \<Rightarrow> HTMLImageElement list \<Rightarrow> World \<Rightarrow> TextureHandle option \<times> World" where
  "TextureHandle_createForCubeImages env images w =
     (createForCubeImages env w images, emit (Call_createForCubeImages images) w)"

definition Symb_getImage ::
  "'v Env \<Rightarrow> 'v GradientSymb \<Rightarrow> nat \<Rightarrow> nat \<Rightarrow> World \<Rightarrow> ImageBuffer \<times> World" where
  "Symb_getImage env grad width height w =
     (getImage env w grad width height, emit (Call_getImage (symb_ref grad) width height) w)"



text \<open>
  \<open>dispose(x)\<close> of bentleyjs-core calls \<open>x.dispose()\<close> on a defined object; what the
  object releases is its own business, the trace records the call.
\<close>

definition dispose :: "ref \<Rightarrow> World \<Rightarrow> World" where
  "dispose r w = emit (Call_dispose r) w"

fun disposeEach :: "ref list \<Rightarrow> World \<Rightarrow> World" where
  "disposeEach [] w = w"
| "disposeEach (r # rs) w = disposeEach rs (dispose r w)"

subsection \<open>IdMap\<close>

text \<open>
  The four caches of an \<open>IdMap\<close>: materials and textures by key, gradient textures by
  gradient symbol (a \<open>Dictionary\<close>), clip volumes by \<open>ClipVector\<close> object (a \<open>Map\<close> whose
  keys are objects compares them by reference).
\<close>

record 'v IdMap =
  materials :: "(string \<times> Material) list"
  textures :: "(string \<times> Texture) list"
  gradients :: "('v \<times> Texture) list"
  clipVolumes :: "(ref \<times> RenderClipVolume) list"

definition IdMap_new :: "'v IdMap" where
  "IdMap_new = \<lparr> materials = [], textures = [], gradients = [], clipVolumes = [] \<rparr>"

definition IdMap_dispose :: "World \<Rightarrow> 'v IdMap \<Rightarrow> World \<times> 'v IdMap" where
  "IdMap_dispose w m =
     (let textureArr = Map_values (textures m);
          gradientArr = Dictionary_values (gradients m);
          clipVolumeArr = Map_values (clipVolumes m);
          w1 = disposeEach (map tex_ref textureArr) w;
          w2 = disposeEach (map tex_ref gradientArr) w1;
          w3 = disposeEach clipVolumeArr w2
      in (w3, m \<lparr> textures := [], gradients := [], clipVolumes := [] \<rparr>))"

definition addMaterial :: "Material \<Rightarrow> 'v IdMap \<Rightarrow> 'v IdMap" where
  "addMaterial material m =
     (case mat_key material of
        None \<Rightarrow> m
      | Some k \<Rightarrow> if k \<noteq> [] then m \<lparr> materials := Map_set k material (materials m) \<rparr> else m)"

definition addTexture :: "Texture \<Rightarrow> 'v IdMap \<Rightarrow> 'v IdMap" where
  "addTexture texture m =
     (case tex_key texture of
        None \<Rightarrow> m
      | Some k \<Rightarrow> if k \<noteq> [] then m \<lparr> textures := Map_set k texture (textures m) \<rparr> else m)"

definition addGradient :: "('v::linorder) GradientSymb \<Rightarrow> Texture \<Rightarrow> 'v IdMap \<Rightarrow> 'v IdMap" where
  "addGradient gradientSymb texture m =
     m \<lparr> gradients := Dictionary_set (symb_fields gradientSymb) texture (gradients m) \<rparr>"


definition findGradient :: "'v GradientSymb \<Rightarrow> 'v IdMap \<Rightarrow> Texture option" where
  "findGradient symb m = Dictionary_get (gradients m) (symb_fields symb)"


definition createTexture ::
  "TextureParams \<Rightarrow> TextureHandle option \<Rightarrow> World \<Rightarrow> 'v IdMap \<Rightarrow> Texture option \<times> World \<times> 'v IdMap" where
  "createTexture params handle w m =
     (case handle of
        None \<Rightarrow> (None, w, m)
      | Some h \<Rightarrow>
          (let (texture, w') = new_Texture params h w
           in (Some texture, w', addTexture texture m)))"

definition createTextureFromImageBuffer ::
  "'v Env \<Rightarrow> ImageBuffer \<Rightarrow> TextureParams \<Rightarrow> World \<Rightarrow> 'v IdMap \<Rightarrow> Texture option \<times> World \<times> 'v IdMap" where
  "createTextureFromImageBuffer env img params w m =
     (let (handle, w') = TextureHandle_createForImageBuffer env img (tp_type params) w
      in createTexture params handle w' m)"

definition createTextureFromImage ::
  "'v Env \<Rightarrow> HTMLImageElement \<Rightarrow> bool \<Rightarrow> TextureParams \<Rightarrow> World \<Rightarrow> 'v IdMap
     \<Rightarrow> Texture option \<times> World \<times> 'v IdMap" where
  "createTextureFromImage env img hasAlpha params w m =
     (let (handle, w') = TextureHandle_createForImage env img hasAlpha (tp_type params) w
      in createTexture params handle w' m)"

definition createTextureFromCubeImages ::
  "'v Env \<Rightarrow> HTMLImageElement list \<Rightarrow> TextureParams \<Rightarrow> World \<Rightarrow> 'v IdMap
     \<Rightarrow> Texture option \<times> World \<times> 'v IdMap" where
  "createTextureFromCubeImages env images params w m =
     (let (handle, w') = TextureHandle_createForCubeImages env images w
      in createTexture params handle w' m)"

definition findTexture :: "string option \<Rightarrow> 'v IdMap \<Rightarrow> Texture option" where
  "findTexture k m = (case k of None \<Rightarrow> None | Some s \<Rightarrow> Map_get (textures m) s)"

definition getTexture ::
  "'v Env \<Rightarrow> ImageBuffer \<Rightarrow> TextureParams \<Rightarrow> World \<Rightarrow> 'v IdMap \<Rightarrow> Texture option \<times> World \<times> 'v IdMap" where
  "getTexture env img params w m =
     (case findTexture (tp_key params) m of
        Some tex \<Rightarrow> (Some tex, w, m)
      | None \<Rightarrow> createTextureFromImageBuffer env img params w m)"

definition getTextureFromImage ::
  "'v Env \<Rightarrow> HTMLImageElement \<Rightarrow> bool \<Rightarrow> TextureParams \<Rightarrow> World \<Rightarrow> 'v IdMap
     \<Rightarrow> Texture option \<times> World \<times> 'v IdMap" where
  "getTextureFromImage env img hasAlpha params w m =
     (case findTexture (tp_key params) m of
        Some tex \<Rightarrow> (Some tex, w, m)
      | None \<Rightarrow> createTextureFromImage env img hasAlpha params w m)"

definition getTextureFromCubeImages ::
  "'v Env \<Rightarrow> HTMLImageElement list \<Rightarrow> TextureParams \<Rightarrow> World \<Rightarrow> 'v IdMap
     \<Rightarrow> Texture option \<times> World \<times> 'v IdMap" where
  "getTextureFromCubeImages env images params w m =
     createTextureFromCubeImages env images params w m"

text \<open>
  \<open>getGradient\<close>: on a miss the symbol is rasterised with \<open>getImage(0x100, 0x100)\<close>, a
  handle is created for the image, and the texture (unnamed, owned) is cached under the
  symbol.
\<close>

definition getGradient ::
  "('v::linorder) Env \<Rightarrow> 'v GradientSymb \<Rightarrow> World \<Rightarrow> 'v IdMap \<Rightarrow> Texture option \<times> World \<times> 'v IdMap" where
  "getGradient env grad w m =
     (case Dictionary_get (gradients m) (symb_fields grad) of
        Some existingGrad \<Rightarrow> (Some existingGrad, w, m)
      | None \<Rightarrow>
          (let (img, w1) = Symb_getImage env grad 256 256 w;
               (textureHandle, w2) = TextureHandle_createForImageBuffer env img Normal w1
           in case textureHandle of
                None \<Rightarrow> (None, w2, m)
              | Some h \<Rightarrow>
                  (let params = \<lparr> tp_key = None, tp_type = Normal, tp_isOwned = True \<rparr>;
                       (texture, w3) = new_Texture params h w2
                   in (Some texture, w3, addGradient grad texture m))))"


subsection \<open>The close event of IModelConnection\<close>

text \<open>
  Modelled from the spec: \<open>BeEvent\<close> of bentleyjs-core, the class of
  \<open>IModelConnection.onClose\<close>, is not among the source files. The spec calls it "an
  explicit registration/unregistration pair": the event keeps the listeners in the
  order in which they were added, and \<open>removeListener(f)\<close> removes the first entry
  that is the function object \<open>f\<close> itself.
\<close>

definition BeEvent_addListener :: "FunctionObject \<Rightarrow> World \<Rightarrow> World" where
  "BeEvent_addListener listener w = w \<lparr> onClose := onClose w @ [listener] \<rparr>"

definition BeEvent_removeListener :: "FunctionObject \<Rightarrow> World \<Rightarrow> World" where
  "BeEvent_removeListener listener w = w \<lparr> onClose := remove1 listener (onClose w) \<rparr>"

text \<open>\<open>f.bind(thisArg)\<close>: a new function object.\<close>

definition Function_bind :: "FunctionObject \<Rightarrow> ref \<Rightarrow> World \<Rightarrow> FunctionObject \<times> World" where
  "Function_bind f thisArg w = (let (r, w') = alloc w in (BoundFunction r f thisArg, w'))"

subsection \<open>System: construction and disposal\<close>

definition debugTextureLifetime :: bool where
  "debugTextureLifetime = False"

text \<open>
  \<open>VertexAttribState\<close>: \<open>Disabled = 0\<close>, \<open>Enabled = 1 << 0\<close>, \<open>Instanced = 1 << 2\<close>,
  \<open>InstancedEnabled = Instanced | Enabled\<close>.
\<close>

definition Disabled :: int where
  "Disabled = 0"

definition Enabled :: int where
  "Enabled = push_bit 0 1"

definition Instanced :: int where
  "Instanced = push_bit 2 1"

definition InstancedEnabled :: int where
  "InstancedEnabled = Instanced OR Enabled"

text \<open>
  The value of \<open>TextureUnit.Zero\<close> (the WebGL constant \<open>TEXTURE0\<close>); its declaration is
  not among the source files, and nothing below depends on the number.
\<close>

definition TextureUnit_Zero :: int where
  "TextureUnit_Zero = 33984"

text \<open>
  The fields of a \<open>System\<close> that the modelled methods use. \<open>textureBindings\<close> is only
  read and written at an index and compared with \<open>===\<close>, so the array is the function
  from indices to bindings, \<open>undefined\<close> where nothing was stored. With
  \<open>debugTextureLifetime = false\<close> the constructor creates no \<open>TextureStats\<close>.
\<close>

record 'v System =
  sys_ref :: ref
  canvas :: ref
  glContext :: WebGLRenderingContext
  capabilities :: Capabilities
  resourceCache :: "(IModelConnection \<times> 'v IdMap) list"
  drawBuffersExtension :: "ExtensionObject option"
  instancingExtension :: "ExtensionObject option"
  textureBindings :: "int \<Rightarrow> TextureBinding"
  curVertexAttribStates :: "int option list"
  nextVertexAttribStates :: "int option list"
  lineCodeTexture :: "ref option"
  noiseTexture :: "ref option"
  techniques :: "ref option"

definition System_new ::
  "ref \<Rightarrow> WebGLRenderingContext \<Rightarrow> Capabilities \<Rightarrow> World \<Rightarrow> 'v System \<times> World" where
  "System_new canvasElement gl caps w =
     (let (this, w1) = alloc w;
          (listener, w2) = Function_bind (PrototypeMethod ''removeIModelMap'') this w1;
          w3 = BeEvent_addListener listener w2
      in (\<lparr> sys_ref = this,
             canvas = canvasElement,
             glContext = gl,
             capabilities = caps,
             resourceCache = [],
             drawBuffersExtension = queryExtensionObject caps ''WEBGL_draw_buffers'',
             instancingExtension = queryExtensionObject caps ''ANGLE_instanced_arrays'',
             textureBindings = (\<lambda>_. None),
             curVertexAttribStates = replicate 12 (Some Disabled),
             nextVertexAttribStates = replicate 12 (Some Disabled),
             lineCodeTexture = None,
             noiseTexture = None,
             techniques = None \<rparr>, w3))"

text \<open>
  \<open>System.create\<close>: \<open>canvasElement\<close> is what \<open>document.createElement("canvas")\<close>
  returns, \<open>getContext\<close> what the canvas answers for a context name.
\<close>

definition System_create ::
  "ref option \<Rightarrow> (string \<Rightarrow> WebGLRenderingContext option) \<Rightarrow> World \<Rightarrow> ('v System) outcome \<times> World" where
  "System_create canvasElement getContext w =
     (case canvasElement of
        None \<Rightarrow> (Throws (IModelError ''Failed to obtain HTMLCanvasElement''), w)
      | Some c \<Rightarrow>
          (case (case getContext ''webgl'' of
                   None \<Rightarrow> getContext ''experimental-webgl''
                 | Some gl \<Rightarrow> Some gl) of
             None \<Rightarrow> (Throws (IModelError ''Failed to obtain WebGL context''), w)
           | Some gl \<Rightarrow>
               (case Capabilities_create gl of
                  None \<Rightarrow> (Throws (IModelError ''Failed to initialize rendering capabilities''), w)
                | Some caps \<Rightarrow> (let (sys, w') = System_new c gl caps w in (Returns sys, w')))))"

definition disposeOpt :: "ref option \<Rightarrow> World \<Rightarrow> World" where
  "disposeOpt r w = (case r of None \<Rightarrow> w | Some x \<Rightarrow> dispose x w)"

text \<open>\<open>resourceCache.forEach((idMap) => dispose(idMap))\<close>: each IdMap is disposed in turn.\<close>

fun disposeIdMaps :: "(IModelConnection \<times> 'v IdMap) list \<Rightarrow> World \<Rightarrow> World" where
  "disposeIdMaps [] w = w"
| "disposeIdMaps ((imodel, idMap) # rest) w = disposeIdMaps rest (fst (IdMap_dispose w idMap))"

definition System_dispose :: "World \<Rightarrow> 'v System \<Rightarrow> World \<times> 'v System" where
  "System_dispose w s =
     (let w1 = disposeOpt (techniques s) w;
          w2 = disposeOpt (lineCodeTexture s) w1;
          w3 = disposeOpt (noiseTexture s) w2;
          w4 = disposeIdMaps (resourceCache s) w3;
          w5 = BeEvent_removeListener (PrototypeMethod ''removeIModelMap'') w4
      in (w5, s \<lparr> techniques := None, lineCodeTexture := None, noiseTexture := None,
                  resourceCache := [] \<rparr>))"

definition createIModelMap :: "IModelConnection \<Rightarrow> 'v System \<Rightarrow> 'v IdMap \<times> 'v System" where
  "createIModelMap imodel s =
     (case Map_get (resourceCache s) imodel of
        Some idMap \<Rightarrow> (idMap, s)
      | None \<Rightarrow> (IdMap_new, s \<lparr> resourceCache := Map_set imodel IdMap_new (resourceCache s) \<rparr>))"

definition removeIModelMap :: "IModelConnection \<Rightarrow> World \<Rightarrow> 'v System \<Rightarrow> World \<times> 'v System" where
  "removeIModelMap imodel w s =
     (case Map_get (resourceCache s) imodel of
        None \<Rightarrow> (w, s)
      | Some idMap \<Rightarrow>
          (fst (IdMap_dispose w idMap),
           s \<lparr> resourceCache := filter (\<lambda>kv. fst kv \<noteq> imodel) (resourceCache s) \<rparr>))"

subsection \<open>System: the depth buffer\<close>

datatype TextureFormat = DepthComponent | DepthStencil

datatype TextureDataType = UnsignedInt | UNSIGNED_INT_24_8_WEBGL ExtensionObject

text \<open>
  What \<open>createDepthBuffer\<close> returns: the creation call of the branch taken (the
  buffer or texture belongs to the caller), or \<open>undefined\<close> behind the assertion of the
  default branch.
\<close>

datatype DepthBufferRequest =
    RenderBuffer_create int int
  | TextureHandle_createForAttachment int int TextureFormat TextureDataType
  | NoDepthBuffer

definition createDepthBuffer :: "'v Env \<Rightarrow> int \<Rightarrow> int \<Rightarrow> 'v System \<Rightarrow> DepthBufferRequest outcome" where
  "createDepthBuffer env width height s =
     (let t = maxDepthType (capabilities s) in
      if t = RenderBufferUnsignedShort16 then Returns (RenderBuffer_create width height)
      else if t = TextureUnsignedInt32 then
        Returns (TextureHandle_createForAttachment width height DepthComponent UnsignedInt)
      else if t = TextureUnsignedInt24Stencil8 then
        (case queryExtensionObject (capabilities s) ''WEBGL_depth_texture'' of
           None \<Rightarrow> Throws TypeError
         | Some dtExt \<Rightarrow>
             Returns (TextureHandle_createForAttachment width height DepthStencil
                        (UNSIGNED_INT_24_8_WEBGL dtExt)))
      else
        (case assert env False of
           Some e \<Rightarrow> Throws e
         | None \<Rightarrow> Returns NoDepthBuffer))"

subsection \<open>System: texture unit bindings\<close>

definition bindTexture ::
  "int \<Rightarrow> TextureTarget \<Rightarrow> TextureBinding \<Rightarrow> World \<Rightarrow> 'v System \<Rightarrow> World \<times> 'v System" where
  "bindTexture unit target texture w s =
     (let index = unit - TextureUnit_Zero in
      if textureBindings s index = texture then (w, s)
      else
        (emit (GL_bindTexture target texture) (emit (GL_activeTexture unit) w),
         s \<lparr> textureBindings := (textureBindings s)(index := texture) \<rparr>))"

definition bindTexture2d :: "int \<Rightarrow> TextureBinding \<Rightarrow> World \<Rightarrow> 'v System \<Rightarrow> World \<times> 'v System" where
  "bindTexture2d unit texture w s = bindTexture unit TwoDee texture w s"

definition bindTextureCubeMap :: "int \<Rightarrow> TextureBinding \<Rightarrow> World \<Rightarrow> 'v System \<Rightarrow> World \<times> 'v System" where
  "bindTextureCubeMap unit texture w s = bindTexture unit CubeMap texture w s"

text \<open>The driver bind calls in a trace.\<close>

definition isBindCall :: "Event \<Rightarrow> bool" where
  "isBindCall e = (case e of GL_bindTexture _ _ \<Rightarrow> True | _ \<Rightarrow> False)"

definition bindCalls :: "World \<Rightarrow> World \<Rightarrow> Event list" where
  "bindCalls w w' = filter isBindCall (drop (length (trace w)) (trace w'))"

subsection \<open>System: vertex attribute arrays\<close>

text \<open>
  The bitwise operators of JavaScript convert their operands to 32-bit integers;
  \<open>undefined\<close> converts to 0.
\<close>

definition ToInt32 :: "int option \<Rightarrow> int" where
  "ToInt32 v = (case v of None \<Rightarrow> 0 | Some n \<Rightarrow> signed_take_bit 31 n)"

definition js_and :: "int option \<Rightarrow> int option \<Rightarrow> int" where
  "js_and a b = ToInt32 a AND ToInt32 b"

definition js_not :: "int option \<Rightarrow> int" where
  "js_not a = NOT (ToInt32 a)"

definition enableVertexAttribArray :: "'v Env \<Rightarrow> nat \<Rightarrow> bool \<Rightarrow> 'v System \<Rightarrow> unit outcome \<times> 'v System" where
  "enableVertexAttribArray env slot instanced s =
     (case assert env (slot < length (nextVertexAttribStates s)) of
        Some e \<Rightarrow> (Throws e, s)
      | None \<Rightarrow>
          (case assert env (slot < length (curVertexAttribStates s)) of
             Some e \<Rightarrow> (Throws e, s)
           | None \<Rightarrow>
               (Returns (),
                s \<lparr> nextVertexAttribStates :=
                      Array_set (nextVertexAttribStates s) slot
                        (Some (if instanced then InstancedEnabled else Enabled)) \<rparr>)))"

text \<open>
  The body of the loop of \<open>updateVertexAttribArrays\<close> for slot \<open>i\<close>. When the
  instancing extension is missing, the assertion fails in a debug build and the call
  on \<open>undefined\<close> raises a \<open>TypeError\<close> in a release build; the enable or disable call
  of the slot has been made by then, and the arrays are as they were.
\<close>

definition updateVertexAttribArray ::
  "'v Env \<Rightarrow> nat \<Rightarrow> World \<Rightarrow> 'v System \<Rightarrow> unit outcome \<times> World \<times> 'v System" where
  "updateVertexAttribArray env i w s =
     (let cur = curVertexAttribStates s;
          nxt = nextVertexAttribStates s;
          oldState = Array_get cur i;
          newState = Array_get nxt i;
          cleared = Array_set nxt i (Some (js_and newState (Some (js_not (Some Enabled)))))
      in if oldState \<noteq> newState then
           (let wasEnabled = (0 \<noteq> js_and (Some Enabled) oldState);
                nowEnabled = (0 \<noteq> js_and (Some Enabled) newState);
                w1 = (if wasEnabled \<noteq> nowEnabled then
                        (if nowEnabled then emit (GL_enableVertexAttribArray i) w
                         else emit (GL_disableVertexAttribArray i) w)
                      else w);
                wasInstanced = (0 \<noteq> js_and (Some Instanced) oldState);
                nowInstanced = (0 \<noteq> js_and (Some Instanced) newState);
                s' = s \<lparr> curVertexAttribStates := Array_set cur i newState,
                         nextVertexAttribStates := cleared \<rparr>
            in if nowEnabled \<and> wasInstanced \<noteq> nowInstanced then
                 (case assert env (instancingExtension s \<noteq> None) of
                    Some e \<Rightarrow> (Throws e, w1, s)
                  | None \<Rightarrow>
                      (case instancingExtension s of
                         None \<Rightarrow> (Throws TypeError, w1, s)
                       | Some ext \<Rightarrow>
                           (Returns (),
                            emit (ANGLE_vertexAttribDivisor i (if nowInstanced then 1 else 0)) w1,
                            s')))
               else (Returns (), w1, s'))
         else (Returns (), w, s \<lparr> nextVertexAttribStates := cleared \<rparr>))"

function updateVertexAttribArrays_from ::
  "'v Env \<Rightarrow> nat \<Rightarrow> World \<Rightarrow> 'v System \<Rightarrow> unit outcome \<times> World \<times> 'v System" where
  "updateVertexAttribArrays_from env i w s =
     (if i < length (nextVertexAttribStates s) then
        (case updateVertexAttribArray env i w s of
           (Throws e, w', s') \<Rightarrow> (Throws e, w', s')
         | (Returns u, w', s') \<Rightarrow> updateVertexAttribArrays_from env (Suc i) w' s')
      else (Returns (), w, s))"
  by pat_completeness auto
termination
  by (relation "measure (\<lambda>(env, i, w, s). length (nextVertexAttribStates s) - i)")
    (auto simp: updateVertexAttribArray_def Array_set_def Let_def
      split: if_splits option.splits)

definition updateVertexAttribArrays ::
  "'v Env \<Rightarrow> World \<Rightarrow> 'v System \<Rightarrow> unit outcome \<times> World \<times> 'v System" where
  "updateVertexAttribArrays env w s = updateVertexAttribArrays_from env 0 w s"

text \<open>The bits of a state as the loop tests them.\<close>

definition isEnabled :: "int option \<Rightarrow> bool" where
  "isEnabled st \<longleftrightarrow> 0 \<noteq> js_and (Some Enabled) st"

definition isInstanced :: "int option \<Rightarrow> bool" where
  "isInstanced st \<longleftrightarrow> 0 \<noteq> js_and (Some Instanced) st"

subsection \<open>System: sheet tile polyfaces\<close>

text \<open>
  Coordinates are rational numbers: the model is exact where the doubles of the source
  are (sums, differences and products of small dyadic numbers).
\<close>

record Point3d =
  pt_x :: rat
  pt_y :: rat
  pt_z :: rat

record Point2d =
  uv_x :: rat
  uv_y :: rat

record Range3d =
  range_low :: Point3d
  range_high :: Point3d

text \<open>
  Modelled from the spec: \<open>Range3d.createArray\<close> of geometry-core is not among the
  source files; the spec calls its result "the tile's own bounding range". The range of
  no points is left out of the model.
\<close>

definition Range3d_createArray :: "Point3d list \<Rightarrow> Range3d option" where
  "Range3d_createArray pts =
     (case pts of
        [] \<Rightarrow> None
      | p # ps \<Rightarrow>
          Some \<lparr> range_low = \<lparr> pt_x = fold min (map pt_x ps) (pt_x p),
                                pt_y = fold min (map pt_y ps) (pt_y p),
                                pt_z = fold min (map pt_z ps) (pt_z p) \<rparr>,
                 range_high = \<lparr> pt_x = fold max (map pt_x ps) (pt_x p),
                                 pt_y = fold max (map pt_y ps) (pt_y p),
                                 pt_z = fold max (map pt_z ps) (pt_z p) \<rparr> \<rparr>)"

definition Point3d_minus :: "Point3d \<Rightarrow> Point3d \<Rightarrow> Point3d" where
  "Point3d_minus p q = \<lparr> pt_x = pt_x p - pt_x q, pt_y = pt_y p - pt_y q, pt_z = pt_z p - pt_z q \<rparr>"

text \<open>
  The facets added to the \<open>PolyfaceBuilder\<close>, in order, stand for the polyface that is
  claimed from it.
\<close>

datatype Facet =
    TriangleFacet "Point3d list" "Point2d list"
  | QuadFacet "Point3d list" "Point2d list"

type_synonym IndexedPolyface = "Facet list"

text \<open>
  The UV parameter of a point: the point relative to the low corner of the tile range,
  both coordinates multiplied by the one scale \<open>1 / (high.x - low.x)\<close>.
\<close>

definition uvParam :: "Point3d \<Rightarrow> rat \<Rightarrow> Point3d \<Rightarrow> Point2d" where
  "uvParam sheetTileOrigin sheetTileScale point =
     (let paramUnscaled = Point3d_minus point sheetTileOrigin
      in \<lparr> uv_x = pt_x paramUnscaled * sheetTileScale, uv_y = pt_y paramUnscaled * sheetTileScale \<rparr>)"

text \<open>
  The face loops of the triangulated graph, as \<open>announceFaceLoops\<close> visits them: whether
  the face carries the exterior mask, and the coordinates of the nodes around it.
\<close>

type_synonym FaceLoop = "bool \<times> (rat \<times> rat) list"

fun faceLoopFacets :: "'v Env \<Rightarrow> Point3d \<Rightarrow> rat \<Rightarrow> FaceLoop list \<Rightarrow> Facet list outcome" where
  "faceLoopFacets env origin scale [] = Returns []"
| "faceLoopFacets env origin scale ((exterior, nodes) # faces) =
     (if \<not> exterior then
        (let trianglePoints = map (\<lambda>(nx, ny). \<lparr> pt_x = nx, pt_y = ny, pt_z = 1 / 2 \<rparr>) nodes;
             params = map (uvParam origin scale) trianglePoints
         in case assert env (length trianglePoints = 3) of
              Some e \<Rightarrow> Throws e
            | None \<Rightarrow>
                (case faceLoopFacets env origin scale faces of
                   Throws e \<Rightarrow> Throws e
                 | Returns fs \<Rightarrow> Returns (TriangleFacet trianglePoints params # fs)))
      else faceLoopFacets env origin scale faces)"

definition polygonFacets ::
  "'v Env \<Rightarrow> (Point3d list \<Rightarrow> FaceLoop list) \<Rightarrow> (Point3d \<times> rat) option \<Rightarrow> Point3d list
     \<Rightarrow> Facet list outcome" where
  "polygonFacets env triangulate tile polygon =
     (if length polygon < 3 then Returns []
      else
        (case tile of
           None \<Rightarrow> Throws OutsideModel
         | Some (origin, scale) \<Rightarrow>
             if length polygon = 3 then
               Returns [TriangleFacet polygon (map (uvParam origin scale) polygon)]
             else if length polygon = 4 then
               Returns [QuadFacet polygon (map (uvParam origin scale) polygon)]
             else faceLoopFacets env origin scale (triangulate polygon)))"

fun polygonsFacets ::
  "'v Env \<Rightarrow> (Point3d list \<Rightarrow> FaceLoop list) \<Rightarrow> (Point3d \<times> rat) option \<Rightarrow> Point3d list list
     \<Rightarrow> Facet list outcome" where
  "polygonsFacets env triangulate tile [] = Returns []"
| "polygonsFacets env triangulate tile (polygon # polygons) =
     (case polygonFacets env triangulate tile polygon of
        Throws e \<Rightarrow> Throws e
      | Returns fs \<Rightarrow>
          (case polygonsFacets env triangulate tile polygons of
             Throws e \<Rightarrow> Throws e
           | Returns gs \<Rightarrow> Returns (fs @ gs)))"

text \<open>
  \<open>createSheetTilePolyfaces\<close>. \<open>clipPolygonToClipShape\<close> (of \<open>ClipUtilities\<close>) and
  \<open>triangulate\<close> (\<open>Triangulator.createTriangulatedGraphFromSingleLoop\<close> followed by
  \<open>flipTriangles\<close>) belong to geometry-core and are parameters. \<open>clip.clips[0]\<close> is
  \<open>undefined\<close> when the clip vector has no shape.
\<close>

definition createSheetTilePolyfaces ::
  "'v Env \<Rightarrow> (Point3d list \<Rightarrow> ClipShape option \<Rightarrow> Point3d list list) \<Rightarrow> (Point3d list \<Rightarrow> FaceLoop list)
     \<Rightarrow> Point3d list \<Rightarrow> ClipVector option \<Rightarrow> IndexedPolyface list outcome" where
  "createSheetTilePolyfaces env clipPolygonToClipShape triangulate corners clip =
     (let tile =
            (case Range3d_createArray corners of
               None \<Rightarrow> None
             | Some sheetTileRange \<Rightarrow>
                 if pt_x (range_high sheetTileRange) - pt_x (range_low sheetTileRange) = 0 then None
                 else Some (range_low sheetTileRange,
                            1 / (pt_x (range_high sheetTileRange) - pt_x (range_low sheetTileRange))));
          clippedPolygons =
            (case clip of
               None \<Rightarrow> [corners]
             | Some cv \<Rightarrow>
                 clipPolygonToClipShape corners (case clips cv of [] \<Rightarrow> None | c # _ \<Rightarrow> Some c))
      in if length clippedPolygons = 0 then Returns []
         else
           (case polygonsFacets env triangulate tile clippedPolygons of
              Throws e \<Rightarrow> Throws e
            | Returns facets \<Rightarrow> Returns [facets]))"

subsection \<open>An invariant of the gradient cache\<close>


subsection \<open>The calls a reconciliation pass owes one slot\<close>


text \<open>\<open>next[i] &= ~VertexAttribState.Enabled\<close>, as a function of the old entry.\<close>

definition clearEnabled :: "int option \<Rightarrow> int option" where
  "clearEnabled st = Some (js_and st (Some (js_not (Some Enabled))))"

subsection \<open>Concrete inputs\<close>

text \<open>A world in which nothing has happened yet.\<close>

definition emptyWorld :: World where
  "emptyWorld = \<lparr> next_ref = 0, trace = [], onClose = [] \<rparr>"

text \<open>
  A context that lists and enables the 32-bit element index and the depth texture
  extensions, with 16 for every limit, and on which no float texture is renderable.
\<close>

definition exampleContext :: WebGLRenderingContext where
  "exampleContext =
     \<lparr> getParameter = (\<lambda>_. 16),
       getSupportedExtensions = Some [''OES_element_index_uint'', ''WEBGL_depth_texture''],
       getExtension = (\<lambda>ext. if ext = ''OES_element_index_uint'' then Some 1
                               else if ext = ''WEBGL_depth_texture'' then Some 2 else None),
       checkFramebufferStatus = (\<lambda>_. FRAMEBUFFER_INCOMPLETE) \<rparr>"

text \<open>The same context with the instancing extension as well.\<close>

definition instancingContext :: WebGLRenderingContext where
  "instancingContext =
     \<lparr> getParameter = (\<lambda>_. 16),
       getSupportedExtensions =
         Some [''OES_element_index_uint'', ''WEBGL_depth_texture'', ''ANGLE_instanced_arrays''],
       getExtension = (\<lambda>ext. if ext = ''OES_element_index_uint'' then Some 1
                               else if ext = ''WEBGL_depth_texture'' then Some 2
                               else if ext = ''ANGLE_instanced_arrays'' then Some 3 else None),
       checkFramebufferStatus = (\<lambda>_. FRAMEBUFFER_INCOMPLETE) \<rparr>"

text \<open>An environment in which every creation of a handle or of a clip volume fails.\<close>

definition failingEnv :: "nat Env" where
  "failingEnv =
     \<lparr> assertionsEnabled = True,
       createForImageBuffer = (\<lambda>_ _ _. None),
       createForImage = (\<lambda>_ _ _ _. None),
       createForCubeImages = (\<lambda>_ _. None),
       getImage = (\<lambda>_ _ _ _. 0),
       createClipMaskVolume = (\<lambda>_ _. None),
       createClipPlanesVolume = (\<lambda>_ _. None) \<rparr>"

text \<open>
  An environment in which handles are created (numbered from the length of the trace),
  a clip vector has no mask volume and has a planes volume.
\<close>

definition workingEnv :: "nat Env" where
  "workingEnv =
     \<lparr> assertionsEnabled = True,
       createForImageBuffer = (\<lambda>w _ _. Some (100 + length (trace w))),
       createForImage = (\<lambda>w _ _ _. Some (100 + length (trace w))),
       createForCubeImages = (\<lambda>w _. Some (100 + length (trace w))),
       getImage = (\<lambda>w _ _ _. 200 + length (trace w)),
       createClipMaskVolume = (\<lambda>_ _. None),
       createClipPlanesVolume = (\<lambda>w _. Some (300 + length (trace w))) \<rparr>"

text \<open>
  A System on the example context, which has no instancing extension, and a System on
  the context that has it.
\<close>

definition plainSystem :: "nat System" where
  "plainSystem =
     fst (System_new 0 exampleContext (the (Capabilities_create exampleContext)) emptyWorld)"

definition instancingSystem :: "nat System" where
  "instancingSystem =
     fst (System_new 0 instancingContext (the (Capabilities_create instancingContext)) emptyWorld)"

text \<open>
  The state in which the current array has slot 0 enabled and the next draw has requested
  slot 0 (not instanced) and slot 1 (instanced).
\<close>

definition requestedSystem :: "nat System \<Rightarrow> nat System" where
  "requestedSystem sys =
     snd (enableVertexAttribArray workingEnv 1 True
       (snd (enableVertexAttribArray workingEnv 0 False
         (sys \<lparr> curVertexAttribStates := (curVertexAttribStates sys)[0 := Some Enabled] \<rparr>))))"

section \<open>Properties of the capability probe\<close>

lemma enableExtension_dom:
  "k \<in> dom (enableExtension gl ext m) \<longleftrightarrow>
     k \<in> dom m \<or> (k = ext \<and> isUsedExtension ext \<and> getExtension gl ext \<noteq> None)"
  by (auto simp: enableExtension_def split: option.splits if_splits)

lemma enableExtensions_dom:
  "k \<in> dom (enableExtensions gl exts m) \<longleftrightarrow>
     k \<in> dom m \<or> (k \<in> set exts \<and> isUsedExtension k \<and> getExtension gl k \<noteq> None)"
proof (induction exts arbitrary: m)
  case Nil
  then show ?case by simp
next
  case (Cons ext exts)
  show ?case
    unfolding enableExtensions.simps Cons.IH enableExtension_dom by auto
qed

lemma init_extensionMap:
  "extensionMap (snd (Capabilities_init gl caps0)) =
     (case getSupportedExtensions gl of
        None \<Rightarrow> extensionMap caps0
      | Some extensions \<Rightarrow> enableExtensions gl extensions (extensionMap caps0))"
  by (simp add: Capabilities_init_def Let_def split: option.splits)

lemma init_units:
  "maxFragTextureUnits (snd (Capabilities_init gl caps0)) = getParameter gl MAX_TEXTURE_IMAGE_UNITS"
  "maxVertTextureUnits (snd (Capabilities_init gl caps0)) = getParameter gl MAX_VERTEX_TEXTURE_IMAGE_UNITS"
  by (simp_all add: Capabilities_init_def Let_def split: option.splits)

lemma init_result:
  "fst (Capabilities_init gl caps0) \<longleftrightarrow>
     hasRequiredFeatures (snd (Capabilities_init gl caps0)) \<and>
     hasRequiredTextureUnits (snd (Capabilities_init gl caps0))"
  by (simp add: Capabilities_init_def Let_def)

lemma init_depth:
  "maxDepthType (snd (Capabilities_init gl caps0)) =
     (if queryExtensionObject (snd (Capabilities_init gl caps0)) ''WEBGL_depth_texture'' \<noteq> None
      then TextureUnsignedInt24Stencil8 else RenderBufferUnsignedShort16)"
  by (simp add: Capabilities_init_def Let_def queryExtensionObject_def split: option.splits)

lemma supports32_create:
  "supports32BitElementIndex (snd (Capabilities_init gl Capabilities_new)) \<longleftrightarrow>
     contextSupports gl ''OES_element_index_uint''"
proof -
  have u: "isUsedExtension ''OES_element_index_uint''"
    by (simp add: isUsedExtension_def)
  have e: "extensionMap Capabilities_new = Map.empty"
    by (simp add: Capabilities_new_def)
  show ?thesis
  proof (cases "getSupportedExtensions gl")
    case None
    then show ?thesis
      by (simp add: supports32BitElementIndex_def queryExtensionObject_def init_extensionMap
          contextSupports_def e)
  next
    case (Some extensions)
    have "''OES_element_index_uint'' \<in> dom (enableExtensions gl extensions Map.empty) \<longleftrightarrow>
        ''OES_element_index_uint'' \<in> set extensions \<and> getExtension gl ''OES_element_index_uint'' \<noteq> None"
      unfolding enableExtensions_dom using u by simp
    then show ?thesis
      using Some
      by (simp add: supports32BitElementIndex_def queryExtensionObject_def init_extensionMap
          contextSupports_def e dom_def)
  qed
qed

lemma create_succeeds:
  "Capabilities_create gl \<noteq> None \<longleftrightarrow>
     contextSupports gl ''OES_element_index_uint'' \<and>
     getParameter gl MAX_TEXTURE_IMAGE_UNITS > 4 \<and>
     getParameter gl MAX_VERTEX_TEXTURE_IMAGE_UNITS > 5"
proof -
  have "Capabilities_create gl \<noteq> None \<longleftrightarrow> fst (Capabilities_init gl Capabilities_new)"
    by (simp add: Capabilities_create_def split: prod.splits)
  also have "\<dots> \<longleftrightarrow> contextSupports gl ''OES_element_index_uint'' \<and>
     getParameter gl MAX_TEXTURE_IMAGE_UNITS > 4 \<and>
     getParameter gl MAX_VERTEX_TEXTURE_IMAGE_UNITS > 5"
    unfolding init_result hasRequiredFeatures_def supports32_create
      hasRequiredTextureUnits_def init_units by simp
  finally show ?thesis .
qed

text \<open>
  Claim C3. The probe \<open>Capabilities.create\<close> returns a Capabilities object if and only
  if the context supports the extension \<open>OES_element_index_uint\<close> (it lists the extension
  and enabling it yields the extension object) and reports more than 4 fragment texture
  units and more than 5 vertex texture units. In particular the probe fails on every
  context without that support, whatever its other limits and extensions are.
\<close>

theorem probe_succeeds_iff:
  "(Capabilities_create gl \<noteq> None \<longleftrightarrow>
      contextSupports gl ''OES_element_index_uint'' \<and>
      getParameter gl MAX_TEXTURE_IMAGE_UNITS > 4 \<and>
      getParameter gl MAX_VERTEX_TEXTURE_IMAGE_UNITS > 5) \<and>
   (\<not> contextSupports gl ''OES_element_index_uint'' \<longrightarrow> Capabilities_create gl = None)"
  using create_succeeds [of gl] by blast

text \<open>
  The probe succeeds on the example context, and fails once the context no longer lists
  the extension, with every limit and the other extension as before.
\<close>

theorem probe_succeeds_iff_witness:
  "Capabilities_create exampleContext \<noteq> None \<and>
   contextSupports exampleContext ''OES_element_index_uint'' \<and>
   Capabilities_create (exampleContext \<lparr> getSupportedExtensions := Some [''WEBGL_depth_texture''] \<rparr>) = None"
proof -
  have s: "contextSupports exampleContext ''OES_element_index_uint''"
    by (simp add: contextSupports_def exampleContext_def)
  have n: "\<not> contextSupports (exampleContext \<lparr> getSupportedExtensions := Some [''WEBGL_depth_texture''] \<rparr>)
      ''OES_element_index_uint''"
    by (simp add: contextSupports_def exampleContext_def)
  have p: "getParameter exampleContext MAX_TEXTURE_IMAGE_UNITS > 4"
    "getParameter exampleContext MAX_VERTEX_TEXTURE_IMAGE_UNITS > 5"
    by (simp_all add: exampleContext_def)
  show ?thesis
    using probe_succeeds_iff [of exampleContext]
      probe_succeeds_iff [of "exampleContext \<lparr> getSupportedExtensions := Some [''WEBGL_depth_texture''] \<rparr>"]
      s n p by simp
qed

lemma create_Some:
  "Capabilities_create gl = Some caps \<Longrightarrow> caps = snd (Capabilities_init gl Capabilities_new)"
  by (auto simp: Capabilities_create_def split: prod.splits if_splits)

lemma depth_texture_query:
  assumes "Capabilities_create gl = Some caps"
  shows "maxDepthType caps =
     (if queryExtensionObject caps ''WEBGL_depth_texture'' \<noteq> None
      then TextureUnsignedInt24Stencil8 else RenderBufferUnsignedShort16)"
  using init_depth [of gl Capabilities_new] create_Some [OF assms] by simp

text \<open>A System made by \<open>System.create\<close> has the Capabilities of a successful probe.\<close>

lemma System_create_capabilities:
  assumes "System_create canvasElement getContext w = (Returns sys, w')"
  shows "\<exists>gl. Capabilities_create gl = Some (capabilities sys)"
  using assms
  by (auto simp: System_create_def System_new_def Let_def split: option.splits prod.splits)

text \<open>
  Claim C10. The \<open>maxDepthType\<close> of the Capabilities of a successful probe is
  \<open>RenderBufferUnsignedShort16\<close> or \<open>TextureUnsignedInt24Stencil8\<close>. So in a System with
  these Capabilities \<open>createDepthBuffer\<close> takes the render buffer branch or the
  depth-stencil branch (where the depth texture extension is present): it reaches
  neither the \<open>TextureUnsignedInt32\<close> case nor the assertion of the default branch.
\<close>

theorem depth_buffer_branches:
  assumes "Capabilities_create gl = Some caps" and "capabilities sys = caps"
  shows "(maxDepthType caps = RenderBufferUnsignedShort16 \<and>
          createDepthBuffer env width height sys = Returns (RenderBuffer_create width height)) \<or>
         (maxDepthType caps = TextureUnsignedInt24Stencil8 \<and>
          (\<exists>dtExt. queryExtensionObject caps ''WEBGL_depth_texture'' = Some dtExt \<and>
             createDepthBuffer env width height sys =
               Returns (TextureHandle_createForAttachment width height DepthStencil
                          (UNSIGNED_INT_24_8_WEBGL dtExt))))"
proof (cases "queryExtensionObject caps ''WEBGL_depth_texture''")
  case None
  then have "maxDepthType caps = RenderBufferUnsignedShort16"
    using depth_texture_query [OF assms(1)] by simp
  then show ?thesis
    using assms(2) by (simp add: createDepthBuffer_def)
next
  case (Some dtExt)
  then have "maxDepthType caps = TextureUnsignedInt24Stencil8"
    using depth_texture_query [OF assms(1)] by simp
  then show ?thesis
    using assms(2) Some
    by (simp add: createDepthBuffer_def TextureUnsignedInt24Stencil8_def
        RenderBufferUnsignedShort16_def TextureUnsignedInt32_def)
qed

theorem depth_buffer_branches_witness:
  "\<exists>sys w'. System_create (Some 0) (\<lambda>_. Some exampleContext) emptyWorld = (Returns sys, w') \<and>
     maxDepthType (capabilities sys) = TextureUnsignedInt24Stencil8 \<and>
     createDepthBuffer workingEnv 640 480 sys =
       Returns (TextureHandle_createForAttachment 640 480 DepthStencil (UNSIGNED_INT_24_8_WEBGL 2))"
proof -
  have "contextSupports exampleContext ''OES_element_index_uint''"
    by (simp add: contextSupports_def exampleContext_def)
  then have "Capabilities_create exampleContext \<noteq> None"
    unfolding create_succeeds by (simp add: exampleContext_def)
  then obtain caps where c: "Capabilities_create exampleContext = Some caps"
    by blast
  define sys :: "nat System" where "sys = fst (System_new 0 exampleContext caps emptyWorld)"
  have cr: "System_create (Some 0) (\<lambda>_. Some exampleContext) emptyWorld =
      (Returns sys, snd (System_new 0 exampleContext caps emptyWorld :: nat System \<times> World))"
    by (simp add: System_create_def c sys_def split: prod.splits)
  have cs: "capabilities sys = caps"
    by (simp add: sys_def System_new_def alloc_def Function_bind_def Let_def split: prod.splits)
  have u: "isUsedExtension ''WEBGL_depth_texture''" "isUsedExtension ''OES_element_index_uint''"
    by (simp_all add: isUsedExtension_def)
  have q: "queryExtensionObject caps ''WEBGL_depth_texture'' = Some 2"
    unfolding create_Some [OF c] queryExtensionObject_def init_extensionMap
    by (simp add: exampleContext_def enableExtension_def u Capabilities_new_def)
  have ne: "RenderBufferUnsignedShort16 \<noteq> TextureUnsignedInt24Stencil8"
    by (simp add: RenderBufferUnsignedShort16_def TextureUnsignedInt24Stencil8_def)
  have "maxDepthType caps = TextureUnsignedInt24Stencil8 \<and>
     createDepthBuffer workingEnv 640 480 sys =
       Returns (TextureHandle_createForAttachment 640 480 DepthStencil (UNSIGNED_INT_24_8_WEBGL 2))"
    using depth_buffer_branches [OF c cs, of workingEnv 640 480] q ne
      depth_texture_query [OF c] by auto
  then show ?thesis
    using cr cs by blast
qed

section \<open>Properties of the IdMap\<close>

subsection \<open>Containers, constructors and disposal\<close>








lemma disposeEach_trace: "disposeEach rs w = w \<lparr> trace := trace w @ map Call_dispose rs \<rparr>"
  by (induction rs arbitrary: w) (simp_all add: dispose_def emit_def)

lemma IdMap_dispose_eq:
  "IdMap_dispose w m =
     (w \<lparr> trace := trace w @ map Call_dispose
            (map tex_ref (Map_values (textures m)) @ map tex_ref (Dictionary_values (gradients m)) @
             Map_values (clipVolumes m)) \<rparr>,
      m \<lparr> textures := [], gradients := [], clipVolumes := [] \<rparr>)"
  by (simp add: IdMap_dispose_def Let_def disposeEach_trace)

subsection \<open>Find or create\<close>













subsection \<open>Disposal\<close>

text \<open>
  Claim C2, as amended. \<open>IdMap.dispose()\<close> calls \<open>dispose\<close> on every texture, every
  gradient texture and every clip volume that is cached, and leaves these three maps
  empty; the map of materials is left as it was. A second \<open>dispose()\<close> changes nothing
  and releases nothing again.
\<close>

theorem dispose_releases_and_empties:
  "textures (snd (IdMap_dispose w m)) = [] \<and>
   gradients (snd (IdMap_dispose w m)) = [] \<and>
   clipVolumes (snd (IdMap_dispose w m)) = [] \<and>
   materials (snd (IdMap_dispose w m)) = materials m \<and>
   trace (fst (IdMap_dispose w m)) =
     trace w @ map Call_dispose
       (map tex_ref (Map_values (textures m)) @ map tex_ref (Dictionary_values (gradients m)) @
        Map_values (clipVolumes m)) \<and>
   IdMap_dispose (fst (IdMap_dispose w m)) (snd (IdMap_dispose w m)) = IdMap_dispose w m"
  by (simp add: IdMap_dispose_eq Map_values_def Dictionary_values_def)

theorem dispose_witness:
  "IdMap_dispose \<lparr> next_ref = 3, trace = [], onClose = [] \<rparr>
     (\<lparr> materials = [(''brick'', \<lparr> mat_ref = 0, mat_key = Some ''brick'' \<rparr>)],
        textures = [(''wood'', \<lparr> tex_ref = 1, tex_key = Some ''wood'', tex_type = Normal,
                                 tex_isOwned = True, tex_handle = 100 \<rparr>)],
        gradients = [(5, \<lparr> tex_ref = 2, tex_key = None, tex_type = Normal,
                            tex_isOwned = True, tex_handle = 101 \<rparr>)],
        clipVolumes = [(9, 301)] \<rparr> :: nat IdMap) =
     (\<lparr> next_ref = 3, trace = [Call_dispose 1, Call_dispose 2, Call_dispose 301], onClose = [] \<rparr>,
      \<lparr> materials = [(''brick'', \<lparr> mat_ref = 0, mat_key = Some ''brick'' \<rparr>)],
        textures = [], gradients = [], clipVolumes = [] \<rparr>) \<and>
   IdMap_dispose
     \<lparr> next_ref = 3, trace = [Call_dispose 1, Call_dispose 2, Call_dispose 301], onClose = [] \<rparr>
     (\<lparr> materials = [(''brick'', \<lparr> mat_ref = 0, mat_key = Some ''brick'' \<rparr>)],
        textures = [], gradients = [], clipVolumes = [] \<rparr> :: nat IdMap) =
     (\<lparr> next_ref = 3, trace = [Call_dispose 1, Call_dispose 2, Call_dispose 301], onClose = [] \<rparr>,
      \<lparr> materials = [(''brick'', \<lparr> mat_ref = 0, mat_key = Some ''brick'' \<rparr>)],
        textures = [], gradients = [], clipVolumes = [] \<rparr>)"
proof -
  let ?w = "\<lparr> next_ref = 3, trace = [], onClose = [] \<rparr>"
  let ?m = "\<lparr> materials = [(''brick'', \<lparr> mat_ref = 0, mat_key = Some ''brick'' \<rparr>)],
        textures = [(''wood'', \<lparr> tex_ref = 1, tex_key = Some ''wood'', tex_type = Normal,
                                 tex_isOwned = True, tex_handle = 100 \<rparr>)],
        gradients = [(5, \<lparr> tex_ref = 2, tex_key = None, tex_type = Normal,
                            tex_isOwned = True, tex_handle = 101 \<rparr>)],
        clipVolumes = [(9, 301)] \<rparr> :: nat IdMap"
  have a: "IdMap_dispose ?w ?m =
     (\<lparr> next_ref = 3, trace = [Call_dispose 1, Call_dispose 2, Call_dispose 301], onClose = [] \<rparr>,
      \<lparr> materials = [(''brick'', \<lparr> mat_ref = 0, mat_key = Some ''brick'' \<rparr>)],
        textures = [], gradients = [], clipVolumes = [] \<rparr>)"
    by (simp add: IdMap_dispose_def Map_values_def Dictionary_values_def dispose_def emit_def)
  show ?thesis
    using dispose_releases_and_empties [of ?w ?m] a
    by (simp add: Map_values_def Dictionary_values_def)
qed

text \<open>
  The claim as stated fails for the materials: after \<open>dispose()\<close> on an IdMap that
  caches one material, the material is still in the map and no resource was released.
\<close>

theorem dispose_counterexample:
  "materials (snd (IdMap_dispose \<lparr> next_ref = 1, trace = [New_Material 0], onClose = [] \<rparr>
     (\<lparr> materials = [(''brick'', \<lparr> mat_ref = 0, mat_key = Some ''brick'' \<rparr>)], textures = [],
        gradients = [], clipVolumes = [] \<rparr> :: nat IdMap))) =
     [(''brick'', \<lparr> mat_ref = 0, mat_key = Some ''brick'' \<rparr>)] \<and>
   trace (fst (IdMap_dispose \<lparr> next_ref = 1, trace = [New_Material 0], onClose = [] \<rparr>
     (\<lparr> materials = [(''brick'', \<lparr> mat_ref = 0, mat_key = Some ''brick'' \<rparr>)], textures = [],
        gradients = [], clipVolumes = [] \<rparr> :: nat IdMap))) = [New_Material 0]"
  by (simp add: IdMap_dispose_def Map_values_def Dictionary_values_def)

subsection \<open>Gradient textures\<close>


lemma getGradient_miss:
  assumes "Dictionary_get (gradients m) (symb_fields g) = None"
  shows "getGradient env g w m =
     (let img = getImage env w g 256 256;
          w1 = emit (Call_getImage (symb_ref g) 256 256) w;
          w2 = emit (Call_createForImageBuffer img Normal) w1
      in case createForImageBuffer env w1 img Normal of
           None \<Rightarrow> (None, w2, m)
         | Some h \<Rightarrow>
             (let texture = \<lparr> tex_ref = next_ref w, tex_key = None, tex_type = Normal,
                               tex_isOwned = True, tex_handle = h \<rparr>
              in (Some texture,
                  emit (New_Texture (next_ref w) h) (w2 \<lparr> next_ref := Suc (next_ref w) \<rparr>),
                  m \<lparr> gradients := Dictionary_set (symb_fields g) texture (gradients m) \<rparr>)))"
  using assms
  by (simp add: getGradient_def Symb_getImage_def TextureHandle_createForImageBuffer_def
      new_Texture_def alloc_def emit_def addGradient_def Let_def split: option.splits)










text \<open>
  Claim C8. When the handle cannot be created, \<open>createTexture\<close>, \<open>getTexture\<close>,
  \<open>getTextureFromImage\<close>, \<open>getTextureFromCubeImages\<close> and \<open>getGradient\<close> return
  \<open>undefined\<close>, as a value and not as an exception, and the IdMap is as it was before
  the call; the attempt is all that the trace records.
\<close>

theorem failed_handle_returns_nothing:
  "createTexture p None w m = (None, w, m) \<and>
   (findTexture (tp_key p) m = None \<and> createForImageBuffer env w img (tp_type p) = None \<longrightarrow>
      getTexture env img p w m = (None, emit (Call_createForImageBuffer img (tp_type p)) w, m)) \<and>
   (findTexture (tp_key p) m = None \<and> createForImage env w el hasAlpha (tp_type p) = None \<longrightarrow>
      getTextureFromImage env el hasAlpha p w m =
        (None, emit (Call_createForImage el hasAlpha (tp_type p)) w, m)) \<and>
   (createForCubeImages env w images = None \<longrightarrow>
      getTextureFromCubeImages env images p w m = (None, emit (Call_createForCubeImages images) w, m)) \<and>
   (Dictionary_get (gradients m) (symb_fields g) = None \<and>
    createForImageBuffer env (emit (Call_getImage (symb_ref g) 256 256) w)
      (getImage env w g 256 256) Normal = None \<longrightarrow>
      getGradient env g w m =
        (None,
         emit (Call_createForImageBuffer (getImage env w g 256 256) Normal)
           (emit (Call_getImage (symb_ref g) 256 256) w),
         m))"
  for g :: "('v::linorder) GradientSymb"
proof (intro conjI impI)
  show "createTexture p None w m = (None, w, m)"
    by (simp add: createTexture_def)
next
  assume "findTexture (tp_key p) m = None \<and> createForImageBuffer env w img (tp_type p) = None"
  then show "getTexture env img p w m = (None, emit (Call_createForImageBuffer img (tp_type p)) w, m)"
    by (simp add: getTexture_def createTextureFromImageBuffer_def
        TextureHandle_createForImageBuffer_def createTexture_def)
next
  assume "findTexture (tp_key p) m = None \<and> createForImage env w el hasAlpha (tp_type p) = None"
  then show "getTextureFromImage env el hasAlpha p w m =
        (None, emit (Call_createForImage el hasAlpha (tp_type p)) w, m)"
    by (simp add: getTextureFromImage_def createTextureFromImage_def
        TextureHandle_createForImage_def createTexture_def)
next
  assume "createForCubeImages env w images = None"
  then show "getTextureFromCubeImages env images p w m =
      (None, emit (Call_createForCubeImages images) w, m)"
    by (simp add: getTextureFromCubeImages_def createTextureFromCubeImages_def
        TextureHandle_createForCubeImages_def createTexture_def)
next
  assume a: "Dictionary_get (gradients m) (symb_fields g) = None \<and>
    createForImageBuffer env (emit (Call_getImage (symb_ref g) 256 256) w)
      (getImage env w g 256 256) Normal = None"
  then show "getGradient env g w m =
        (None,
         emit (Call_createForImageBuffer (getImage env w g 256 256) Normal)
           (emit (Call_getImage (symb_ref g) 256 256) w),
         m)"
    using getGradient_miss [of m g env w] by (simp add: Let_def)
qed

theorem failed_handle_witness:
  "getTexture failingEnv 7 \<lparr> tp_key = Some ''wood'', tp_type = Normal, tp_isOwned = True \<rparr>
     emptyWorld (IdMap_new :: nat IdMap) =
     (None, \<lparr> next_ref = 0, trace = [Call_createForImageBuffer 7 Normal], onClose = [] \<rparr>, IdMap_new) \<and>
   getTextureFromImage failingEnv 7 True \<lparr> tp_key = None, tp_type = Normal, tp_isOwned = True \<rparr>
     emptyWorld (IdMap_new :: nat IdMap) =
     (None, \<lparr> next_ref = 0, trace = [Call_createForImage 7 True Normal], onClose = [] \<rparr>, IdMap_new) \<and>
   getTextureFromCubeImages failingEnv [1, 2, 3, 4, 5, 6]
     \<lparr> tp_key = Some ''sky'', tp_type = Normal, tp_isOwned = True \<rparr>
     emptyWorld (IdMap_new :: nat IdMap) =
     (None, \<lparr> next_ref = 0, trace = [Call_createForCubeImages [1, 2, 3, 4, 5, 6]], onClose = [] \<rparr>,
      IdMap_new) \<and>
   getGradient failingEnv \<lparr> symb_ref = 10, symb_fields = 5 \<rparr> emptyWorld (IdMap_new :: nat IdMap) =
     (None,
      \<lparr> next_ref = 0, trace = [Call_getImage 10 256 256, Call_createForImageBuffer 0 Normal],
        onClose = [] \<rparr>,
      IdMap_new)"
proof -
  have f: "findTexture (Some ''wood'') (IdMap_new :: nat IdMap) = None"
    "findTexture None (IdMap_new :: nat IdMap) = None"
    "Dictionary_get (gradients (IdMap_new :: nat IdMap)) (5::nat) = None"
    by (simp_all add: findTexture_def Map_get_def Dictionary_get_def IdMap_new_def)
  have e: "createForImageBuffer failingEnv = (\<lambda>_ _ _. None)" "createForImage failingEnv = (\<lambda>_ _ _ _. None)"
    "createForCubeImages failingEnv = (\<lambda>_ _. None)" "getImage failingEnv = (\<lambda>_ _ _ _. 0)"
    by (simp_all add: failingEnv_def)
  show ?thesis
    using failed_handle_returns_nothing
      [where env = failingEnv and w = emptyWorld and m = "IdMap_new :: nat IdMap" and img = 7
        and p = "\<lparr> tp_key = Some ''wood'', tp_type = Normal, tp_isOwned = True \<rparr>"
        and g = "\<lparr> symb_ref = 10, symb_fields = 5 \<rparr>"]
      failed_handle_returns_nothing
      [where env = failingEnv and w = emptyWorld and m = "IdMap_new :: nat IdMap" and el = 7
        and hasAlpha = True
        and p = "\<lparr> tp_key = None, tp_type = Normal, tp_isOwned = True \<rparr>"
        and g = "\<lparr> symb_ref = 10, symb_fields = 5 \<rparr>"]
      failed_handle_returns_nothing
      [where env = failingEnv and w = emptyWorld and m = "IdMap_new :: nat IdMap"
        and images = "[1, 2, 3, 4, 5, 6]"
        and p = "\<lparr> tp_key = Some ''sky'', tp_type = Normal, tp_isOwned = True \<rparr>"
        and g = "\<lparr> symb_ref = 10, symb_fields = 5 \<rparr>"]
      f e
    by (simp add: emit_def emptyWorld_def)
qed

section \<open>Properties of the System\<close>

subsection \<open>Concrete Systems\<close>

lemma used_extensions:
  "isUsedExtension ''OES_element_index_uint''" "isUsedExtension ''WEBGL_depth_texture''"
  "isUsedExtension ''ANGLE_instanced_arrays''"
  by (simp_all add: isUsedExtension_def)

lemma example_capabilities:
  "queryExtensionObject (the (Capabilities_create exampleContext)) ''ANGLE_instanced_arrays'' = None"
  "queryExtensionObject (the (Capabilities_create instancingContext)) ''ANGLE_instanced_arrays'' = Some 3"
  by (simp_all add: Capabilities_create_def Capabilities_init_def Let_def queryExtensionObject_def
      Capabilities_new_def exampleContext_def instancingContext_def enableExtension_def
      used_extensions hasRequiredFeatures_def hasRequiredTextureUnits_def
      supports32BitElementIndex_def)

lemma example_systems:
  "instancingExtension plainSystem = None"
  "instancingExtension instancingSystem = Some 3"
  "curVertexAttribStates plainSystem = replicate 12 (Some 0)"
  "nextVertexAttribStates plainSystem = replicate 12 (Some 0)"
  "curVertexAttribStates instancingSystem = replicate 12 (Some 0)"
  "nextVertexAttribStates instancingSystem = replicate 12 (Some 0)"
  by (simp_all add: plainSystem_def instancingSystem_def System_new_def alloc_def Function_bind_def
      Let_def example_capabilities Disabled_def split: prod.splits)

lemma plainSystem_bindings: "textureBindings plainSystem = (\<lambda>_. None)"
  by (simp add: plainSystem_def System_new_def alloc_def Function_bind_def Let_def
      split: prod.splits)

subsection \<open>Texture unit bindings\<close>

lemma bindTexture_calls:
  "bindCalls w (fst (bindTexture unit target texture w s)) =
     (if textureBindings s (unit - TextureUnit_Zero) = texture then []
      else [GL_bindTexture target texture])"
  by (simp add: bindTexture_def bindCalls_def isBindCall_def emit_def Let_def)

lemma bindTexture_recorded:
  "textureBindings (snd (bindTexture unit target texture w s)) (unit - TextureUnit_Zero) = texture"
  by (simp add: bindTexture_def Let_def)

lemma bindTexture_trace:
  "trace (fst (bindTexture unit target texture w s)) =
     trace w @ (if textureBindings s (unit - TextureUnit_Zero) = texture then []
                else [GL_activeTexture unit, GL_bindTexture target texture])"
  by (simp add: bindTexture_def emit_def Let_def)

text \<open>
  Claim C7. For \<open>bindTexture2d\<close> and for \<open>bindTextureCubeMap\<close>, on every texture unit: a
  bind issues a driver bind call exactly when the requested texture differs from the
  binding recorded for the unit; a second bind of the same texture right after the first
  changes nothing and issues no call, so that the two binds of a texture the unit did
  not hold issue exactly one driver bind call; and a following bind of a different
  texture on the unit issues the second call.
\<close>

theorem rebind_only_on_change:
  fixes s :: "'v System"
  assumes "(bind = bindTexture2d \<and> target = TwoDee) \<or> (bind = bindTextureCubeMap \<and> target = CubeMap)"
  shows "bindCalls w (fst (bind unit texture w s)) =
           (if textureBindings s (unit - TextureUnit_Zero) = texture then []
            else [GL_bindTexture target texture]) \<and>
         (bind unit texture w s = (wa, sa) \<longrightarrow> bind unit texture wa sa = (wa, sa)) \<and>
         (textureBindings s (unit - TextureUnit_Zero) \<noteq> texture \<and> other \<noteq> texture \<and>
          bind unit texture w s = (wa, sa) \<and> bind unit texture wa sa = (wb, sb) \<and>
          bind unit other wb sb = (wc, sc) \<longrightarrow>
            bindCalls w wb = [GL_bindTexture target texture] \<and>
            bindCalls wb wc = [GL_bindTexture target other] \<and>
            bindCalls w wc = [GL_bindTexture target texture, GL_bindTexture target other])"
proof -
  have b: "bind unit = bindTexture unit target"
    using assms by (auto simp: bindTexture2d_def bindTextureCubeMap_def fun_eq_iff)
  have one: "bindCalls w (fst (bind unit texture w s)) =
           (if textureBindings s (unit - TextureUnit_Zero) = texture then []
            else [GL_bindTexture target texture])"
    unfolding b by (rule bindTexture_calls)
  have two: "bind unit texture wa sa = (wa, sa)" if "bind unit texture w s = (wa, sa)"
  proof -
    have "textureBindings sa (unit - TextureUnit_Zero) = texture"
      using bindTexture_recorded [of unit target texture w s] that unfolding b by simp
    then show ?thesis
      unfolding b by (simp add: bindTexture_def)
  qed
  have three: "bindCalls w wb = [GL_bindTexture target texture] \<and>
            bindCalls wb wc = [GL_bindTexture target other] \<and>
            bindCalls w wc = [GL_bindTexture target texture, GL_bindTexture target other]"
    if h: "textureBindings s (unit - TextureUnit_Zero) \<noteq> texture" "other \<noteq> texture"
      "bind unit texture w s = (wa, sa)" "bind unit texture wa sa = (wb, sb)"
      "bind unit other wb sb = (wc, sc)"
  proof -
    have ab: "wb = wa" "sb = sa"
      using two [OF h(3)] h(4) by simp_all
    have ta: "trace wa = trace w @ [GL_activeTexture unit, GL_bindTexture target texture]"
      using bindTexture_trace [of unit target texture w s] h(1,3) unfolding b by simp
    have ra: "textureBindings sa (unit - TextureUnit_Zero) = texture"
      using bindTexture_recorded [of unit target texture w s] h(3) unfolding b by simp
    have tc: "trace wc = trace wa @ [GL_activeTexture unit, GL_bindTexture target other]"
      using bindTexture_trace [of unit target other wa sa] h(2,5) ra unfolding b ab by auto
    show ?thesis
      unfolding ab using ta tc by (simp add: bindCalls_def isBindCall_def)
  qed
  show ?thesis
    using one two three by blast
qed

theorem rebind_only_on_change_witness:
  "\<exists>wa sa wb sb wc sc.
     bindTexture2d 33985 (Some 5) emptyWorld plainSystem = (wa, sa) \<and>
     bindTexture2d 33985 (Some 5) wa sa = (wb, sb) \<and>
     bindTexture2d 33985 (Some 6) wb sb = (wc, sc) \<and>
     wb = wa \<and>
     trace wb = [GL_activeTexture 33985, GL_bindTexture TwoDee (Some 5)] \<and>
     bindCalls emptyWorld wb = [GL_bindTexture TwoDee (Some 5)] \<and>
     bindCalls wb wc = [GL_bindTexture TwoDee (Some 6)]"
proof -
  obtain wa sa where a: "bindTexture2d 33985 (Some 5) emptyWorld plainSystem = (wa, sa)"
    by (cases "bindTexture2d 33985 (Some 5) emptyWorld plainSystem") blast
  obtain wc sc where c: "bindTexture2d 33985 (Some 6) wa sa = (wc, sc)"
    by (cases "bindTexture2d 33985 (Some 6) wa sa") blast
  have n: "textureBindings plainSystem (33985 - TextureUnit_Zero) \<noteq> Some 5"
    by (simp add: plainSystem_bindings)
  note r = rebind_only_on_change
    [where bind = bindTexture2d and target = TwoDee and unit = 33985 and texture = "Some 5"
       and other = "Some 6" and w = emptyWorld and s = plainSystem and wa = wa and sa = sa
       and wb = wa and sb = sa and wc = wc and sc = sc]
  have b: "bindTexture2d 33985 (Some 5) wa sa = (wa, sa)"
    using r a by simp
  have calls: "bindCalls emptyWorld wa = [GL_bindTexture TwoDee (Some 5)]"
    "bindCalls wa wc = [GL_bindTexture TwoDee (Some 6)]"
    using r a b c n by simp_all
  have t: "trace wa = [GL_activeTexture 33985, GL_bindTexture TwoDee (Some 5)]"
    using a
    by (auto simp: bindTexture2d_def bindTexture_def plainSystem_bindings emit_def emptyWorld_def
        Let_def)
  show ?thesis
    using a b c calls t by blast
qed

subsection \<open>Vertex attribute arrays\<close>

lemma ToInt32_Enabled: "ToInt32 (Some Enabled) = 1"
  by (simp add: ToInt32_def Enabled_def)

lemma ToInt32_Instanced: "ToInt32 (Some Instanced) = push_bit 2 1"
  by (simp add: ToInt32_def Instanced_def)

lemma isEnabled_bit: "isEnabled st \<longleftrightarrow> bit (ToInt32 st) 0"
  by (simp add: isEnabled_def js_and_def ToInt32_Enabled one_and_eq bit_0 mod_2_eq_odd)

lemma isInstanced_bit: "isInstanced st \<longleftrightarrow> bit (ToInt32 st) 2"
proof -
  have "isInstanced st \<longleftrightarrow> ToInt32 st AND push_bit 2 1 \<noteq> 0"
    unfolding isInstanced_def js_and_def ToInt32_Instanced by (auto simp: and.commute)
  then show ?thesis
    by (simp only: bit_iff_and_push_bit_not_eq_0)
qed



lemma state_values: "Enabled = 1" "Instanced = 4" "InstancedEnabled = 5" "Disabled = 0"
  by (simp_all add: Enabled_def Instanced_def InstancedEnabled_def Disabled_def)

lemma state_bits:
  "\<not> isEnabled (Some 0)" "isEnabled (Some 1)" "\<not> isEnabled (Some 4)" "isEnabled (Some 5)"
  "\<not> isInstanced (Some 0)" "\<not> isInstanced (Some 1)" "isInstanced (Some 4)" "isInstanced (Some 5)"
  by (simp_all add: isEnabled_bit isInstanced_bit ToInt32_def bit_signed_take_bit_iff)

lemma clearEnabled_values:
  "clearEnabled (Some 0) = Some 0" "clearEnabled (Some 1) = Some 0"
  "clearEnabled (Some 4) = Some 4" "clearEnabled (Some 5) = Some 4"
  by (simp_all add: clearEnabled_def js_and_def js_not_def ToInt32_def state_values)






lemma requestedSystem_states:
  assumes "curVertexAttribStates sys = replicate 12 (Some 0)"
    and "nextVertexAttribStates sys = replicate 12 (Some 0)"
  shows "curVertexAttribStates (requestedSystem sys) = Some 1 # replicate 11 (Some 0)"
    and "nextVertexAttribStates (requestedSystem sys) = Some 1 # Some 5 # replicate 10 (Some 0)"
    and "instancingExtension (requestedSystem sys) = instancingExtension sys"
  using assms
  by (simp_all add: requestedSystem_def enableVertexAttribArray_def assert_def Array_set_def
      state_values workingEnv_def eval_nat_numeral)





text \<open>
  The assertion of the pass: in a System without the instancing extension, the same
  request breaks \<open>assert(undefined !== this._instancingExtension)\<close> at slot 1. The
  enable call for slot 1 has been issued by then, which is owed; no divisor call is
  issued.
\<close>

lemma pass_without_instancing_extension:
  "curVertexAttribStates (requestedSystem plainSystem) = Some Enabled # replicate 11 (Some Disabled) \<and>
   nextVertexAttribStates (requestedSystem plainSystem) =
     Some Enabled # Some InstancedEnabled # replicate 10 (Some Disabled) \<and>
   fst (updateVertexAttribArrays workingEnv emptyWorld (requestedSystem plainSystem)) =
     Throws AssertionError \<and>
   trace (fst (snd (updateVertexAttribArrays workingEnv emptyWorld (requestedSystem plainSystem)))) =
     [GL_enableVertexAttribArray 1] \<and>
   nextVertexAttribStates
     (snd (snd (updateVertexAttribArrays workingEnv emptyWorld (requestedSystem plainSystem)))) =
     Some Disabled # Some InstancedEnabled # replicate 10 (Some Disabled)"
proof -
  let ?s = "requestedSystem plainSystem"
  note st = requestedSystem_states [OF example_systems(3,4)]
  have e: "instancingExtension ?s = None"
    by (simp add: st example_systems)
  have a0: "updateVertexAttribArray workingEnv 0 emptyWorld ?s =
      (Returns (), emptyWorld,
       ?s \<lparr> nextVertexAttribStates := Some 0 # Some 5 # replicate 10 (Some 0) \<rparr>)"
    by (simp add: updateVertexAttribArray_def st Array_get_def Array_set_def Let_def
        clearEnabled_values [unfolded clearEnabled_def])
  have a1: "updateVertexAttribArray workingEnv (Suc 0) emptyWorld
        (?s \<lparr> nextVertexAttribStates := Some 0 # Some 5 # replicate 10 (Some 0) \<rparr>) =
      (Throws AssertionError, emit (GL_enableVertexAttribArray 1) emptyWorld,
       ?s \<lparr> nextVertexAttribStates := Some 0 # Some 5 # replicate 10 (Some 0) \<rparr>)"
    using state_bits
    by (simp add: updateVertexAttribArray_def st example_systems Array_get_def Array_set_def Let_def
        isEnabled_def isInstanced_def assert_def workingEnv_def eval_nat_numeral)
  have r: "updateVertexAttribArrays workingEnv emptyWorld ?s =
      (Throws AssertionError, emit (GL_enableVertexAttribArray 1) emptyWorld,
       ?s \<lparr> nextVertexAttribStates := Some 0 # Some 5 # replicate 10 (Some 0) \<rparr>)"
  proof -
    have "updateVertexAttribArrays_from workingEnv 0 emptyWorld ?s =
        updateVertexAttribArrays_from workingEnv (Suc 0) emptyWorld
          (?s \<lparr> nextVertexAttribStates := Some 0 # Some 5 # replicate 10 (Some 0) \<rparr>)"
      by (subst updateVertexAttribArrays_from.simps) (simp add: st a0)
    also have "\<dots> = (Throws AssertionError, emit (GL_enableVertexAttribArray 1) emptyWorld,
        ?s \<lparr> nextVertexAttribStates := Some 0 # Some 5 # replicate 10 (Some 0) \<rparr>)"
      by (subst updateVertexAttribArrays_from.simps) (simp add: a1)
    finally show ?thesis
      by (simp add: updateVertexAttribArrays_def)
  qed
  show ?thesis
    unfolding r by (simp add: st state_values emit_def emptyWorld_def)
qed

subsection \<open>The close listener\<close>

lemma IdMap_dispose_onClose: "onClose (fst (IdMap_dispose w m)) = onClose w"
  by (simp add: IdMap_dispose_def Let_def disposeEach_trace)

lemma disposeIdMaps_onClose: "onClose (disposeIdMaps cache w) = onClose w"
  by (induction cache w rule: disposeIdMaps.induct) (simp_all add: IdMap_dispose_onClose)

lemma disposeOpt_onClose: "onClose (disposeOpt r w) = onClose w"
  by (simp add: disposeOpt_def dispose_def emit_def split: option.splits)

lemma System_dispose_onClose:
  "onClose (fst (System_dispose w s)) = remove1 (PrototypeMethod ''removeIModelMap'') (onClose w)"
  by (simp add: System_dispose_def Let_def BeEvent_removeListener_def disposeIdMaps_onClose
      disposeOpt_onClose)

lemma System_new_onClose:
  "onClose (snd (System_new c gl caps w :: 'v System \<times> World)) =
     onClose w @ [BoundFunction (Suc (next_ref w)) (PrototypeMethod ''removeIModelMap'') (next_ref w)]"
  by (simp add: System_new_def alloc_def Function_bind_def BeEvent_addListener_def Let_def)

text \<open>
  Claim C9 does not hold of the code. The constructor subscribes the function object
  \<open>this.removeIModelMap.bind(this)\<close>; \<open>dispose()\<close> asks the event to remove
  \<open>this.removeIModelMap\<close>, the method of the prototype, which is another function
  object. The listener that the constructor added is therefore still subscribed after
  \<open>dispose()\<close>; for a System constructed in the empty world it is the only listener,
  before and after.
\<close>

theorem close_listener_survives_dispose:
  "onClose (snd (System_new c gl caps w :: 'v System \<times> World)) =
     onClose w @ [BoundFunction (Suc (next_ref w)) (PrototypeMethod ''removeIModelMap'') (next_ref w)] \<and>
   BoundFunction (Suc (next_ref w)) (PrototypeMethod ''removeIModelMap'') (next_ref w) \<in>
     set (onClose (fst (System_dispose (snd (System_new c gl caps w))
                         (fst (System_new c gl caps w :: 'v System \<times> World))))) \<and>
   onClose (fst (System_dispose (snd (System_new c gl caps emptyWorld))
                  (fst (System_new c gl caps emptyWorld :: 'v System \<times> World)))) =
     [BoundFunction 1 (PrototypeMethod ''removeIModelMap'') 0]"
proof -
  let ?b = "BoundFunction (Suc (next_ref w)) (PrototypeMethod ''removeIModelMap'') (next_ref w)"
  have "?b \<in> set (remove1 (PrototypeMethod ''removeIModelMap'') (onClose w @ [?b]))"
    by (simp add: remove1_append)
  then show ?thesis
    by (simp add: System_dispose_onClose System_new_onClose emptyWorld_def)
qed

subsection \<open>Sheet tile polyfaces\<close>

text \<open>
  For a rectangle of positive width and height with sides parallel to the axes, given
  from its low corner counter-clockwise and not clipped, the polyface is one quad facet.
  Its UV parameters are (0,0), (1,0), (1,h/w), (0,h/w): the corners of the unit square
  exactly when the rectangle is a square.
\<close>

lemma sheet_tile_uv_of_rectangle:
  assumes "0 < width" and "0 < height"
  shows "createSheetTilePolyfaces env clipPolygonToClipShape triangulate
     [\<lparr> pt_x = x0, pt_y = y0, pt_z = z0 \<rparr>, \<lparr> pt_x = x0 + width, pt_y = y0, pt_z = z0 \<rparr>,
      \<lparr> pt_x = x0 + width, pt_y = y0 + height, pt_z = z0 \<rparr>,
      \<lparr> pt_x = x0, pt_y = y0 + height, pt_z = z0 \<rparr>] None =
   Returns [[QuadFacet
     [\<lparr> pt_x = x0, pt_y = y0, pt_z = z0 \<rparr>, \<lparr> pt_x = x0 + width, pt_y = y0, pt_z = z0 \<rparr>,
      \<lparr> pt_x = x0 + width, pt_y = y0 + height, pt_z = z0 \<rparr>,
      \<lparr> pt_x = x0, pt_y = y0 + height, pt_z = z0 \<rparr>]
     [\<lparr> uv_x = 0, uv_y = 0 \<rparr>, \<lparr> uv_x = 1, uv_y = 0 \<rparr>,
      \<lparr> uv_x = 1, uv_y = height / width \<rparr>, \<lparr> uv_x = 0, uv_y = height / width \<rparr>]]]"
  using assms
  by (simp add: createSheetTilePolyfaces_def Range3d_createArray_def polygonFacets_def uvParam_def
      Point3d_minus_def Let_def min_def max_def)

text \<open>
  Claim C5 does not hold of the code. Both UV coordinates are scaled by the reciprocal
  of the width of the tile range, so for the rectangle of width 2 and height 1, with no
  clip, the one quad facet has the UV parameters (0,0), (1,0), (1,1/2), (0,1/2): the
  second coordinate spans [0,1/2], not [0,1].
\<close>

theorem sheet_tile_uv_of_wide_rectangle:
  "createSheetTilePolyfaces env clipPolygonToClipShape triangulate
     [\<lparr> pt_x = 0, pt_y = 0, pt_z = 0 \<rparr>, \<lparr> pt_x = 2, pt_y = 0, pt_z = 0 \<rparr>,
      \<lparr> pt_x = 2, pt_y = 1, pt_z = 0 \<rparr>, \<lparr> pt_x = 0, pt_y = 1, pt_z = 0 \<rparr>] None =
   Returns [[QuadFacet
     [\<lparr> pt_x = 0, pt_y = 0, pt_z = 0 \<rparr>, \<lparr> pt_x = 2, pt_y = 0, pt_z = 0 \<rparr>,
      \<lparr> pt_x = 2, pt_y = 1, pt_z = 0 \<rparr>, \<lparr> pt_x = 0, pt_y = 1, pt_z = 0 \<rparr>]
     [\<lparr> uv_x = 0, uv_y = 0 \<rparr>, \<lparr> uv_x = 1, uv_y = 0 \<rparr>,
      \<lparr> uv_x = 1, uv_y = 1 / 2 \<rparr>, \<lparr> uv_x = 0, uv_y = 1 / 2 \<rparr>]]]"
  by (simp add: createSheetTilePolyfaces_def Range3d_createArray_def polygonFacets_def uvParam_def
      Point3d_minus_def Let_def)

end
